theory Spec2Isabelle
  imports Main "HOL-Library.Multiset" "HOL-Library.Sublist"
begin

section \<open>Strings\<close>

text \<open>
  A JavaScript string is the list of its UTF-16 code units, each an integer.  The patterns
  of the engine carry no flag \<open>u\<close>, so they match code unit by code unit, and
  \<open>length\<close> counts code units.  \<open>js\<close> turns an ASCII literal into the string of
  its code units.  Names of elements and attributes, attribute values and the paths of the
  parts of a package are only ever compared with ASCII literals and are kept as plain
  strings.
\<close>

type_synonym jsstring = "int list"

abbreviation (input) js :: "string \<Rightarrow> jsstring" where
  "js s \<equiv> map of_char s"

text \<open>
  The class \<open>\s\<close> of a pattern, which is also what \<open>trim\<close> removes: TAB, LF, VT,
  FF, CR, SPACE, NO-BREAK SPACE, OGHAM SPACE MARK, the spaces \<open>U+2000\<close> to
  \<open>U+200A\<close>, LINE SEPARATOR, PARAGRAPH SEPARATOR, NARROW NO-BREAK SPACE, MEDIUM
  MATHEMATICAL SPACE, IDEOGRAPHIC SPACE and the byte order mark.
\<close>

definition isSpace :: "int \<Rightarrow> bool" where
  "isSpace c \<longleftrightarrow>
     c \<in> set [0x09, 0x0A, 0x0B, 0x0C, 0x0D, 0x20, 0xA0, 0x1680, 0x2028, 0x2029, 0x202F,
                0x205F, 0x3000, 0xFEFF]
     \<or> (0x2000 \<le> c \<and> c \<le> 0x200A)"

definition isDigit :: "int \<Rightarrow> bool" where
  "isDigit c \<longleftrightarrow> c \<in> set (js ''0123456789'')"

definition trim :: "jsstring \<Rightarrow> jsstring" where
  "trim s = rev (dropWhile isSpace (rev (dropWhile isSpace s)))"

definition jsLength :: "jsstring \<Rightarrow> nat" where
  "jsLength s = length s"

text \<open>
  The two case mappings on the letters \<open>A\<close> .. \<open>Z\<close>.  The engine upper-cases only
  a letter matched by \<open>[A-Da-d]\<close>, and compares a lower-cased string only with a
  one-letter string \<open>a\<close> .. \<open>d\<close>; no code point other than \<open>A\<close> .. \<open>D\<close>
  lowers to one of these, so the mapping of the ASCII letters decides both.
\<close>

definition toUpperChar :: "int \<Rightarrow> int" where
  "toUpperChar c =
     (case map_of (zip (js ''abcdefghijklmnopqrstuvwxyz'') (js ''ABCDEFGHIJKLMNOPQRSTUVWXYZ'')) c of
        Some u \<Rightarrow> u | None \<Rightarrow> c)"

definition toLowerChar :: "int \<Rightarrow> int" where
  "toLowerChar c =
     (case map_of (zip (js ''ABCDEFGHIJKLMNOPQRSTUVWXYZ'') (js ''abcdefghijklmnopqrstuvwxyz'')) c of
        Some l \<Rightarrow> l | None \<Rightarrow> c)"


fun splitOn :: "int \<Rightarrow> jsstring \<Rightarrow> jsstring list" where
  "splitOn d [] = [[]]"
| "splitOn d (c # cs) =
     (if c = d then [] # splitOn d cs
      else (case splitOn d cs of [] \<Rightarrow> [[c]] | l # ls \<Rightarrow> (c # l) # ls))"

section \<open>The pattern library\<close>

definition isOptionLetter :: "int \<Rightarrow> bool" where
  "isOptionLetter c \<longleftrightarrow> c \<in> set (js ''ABCD'') \<or> c \<in> set (js ''abcd'')"

definition isSeparator :: "int \<Rightarrow> bool" where
  "isSeparator c \<longleftrightarrow> c \<in> set (js ''.):'')"

text \<open>
  \<open>OPTION_PREFIX_REGEX = /^(\s*)([A-D]|[a-d])(\s*)([\.\)\:])/\<close>.  A match is returned as
  its four groups and the text that follows the match.  Both \<open>\s*\<close> are greedy and
  what follows each is never white space, so the match is unique.
\<close>

definition OPTION_PREFIX_REGEX :: "jsstring \<Rightarrow> (jsstring \<times> int \<times> jsstring \<times> int \<times> jsstring) option" where
  "OPTION_PREFIX_REGEX text =
     (case dropWhile isSpace text of
        [] \<Rightarrow> None
      | c # r \<Rightarrow>
          if isOptionLetter c then
            (case dropWhile isSpace r of
               [] \<Rightarrow> None
             | d # rest \<Rightarrow>
                 if isSeparator d
                 then Some (takeWhile isSpace text, c, takeWhile isSpace r, d, rest)
                 else None)
          else None)"

text \<open>\<open>looseRegex = /^(\s*)([A-D]|[a-d])(\s*)$/\<close>, with its three groups.\<close>

definition looseRegex :: "jsstring \<Rightarrow> (jsstring \<times> int \<times> jsstring) option" where
  "looseRegex text =
     (case dropWhile isSpace text of
        [] \<Rightarrow> None
      | c # r \<Rightarrow>
          if isOptionLetter c \<and> dropWhile isSpace r = []
          then Some (takeWhile isSpace text, c, r)
          else None)"

text \<open>
  \<open>KEY_REGEX_EXTRACT = /<Key\s*=\s*([^>]*)>/i\<close>: \<open>keyAt\<close> is the match anchored at
  the head of the text, \<open>KEY_REGEX_EXTRACT\<close> the leftmost match; both return group 1.
\<close>

definition keyAt :: "jsstring \<Rightarrow> jsstring option" where
  "keyAt s =
     (case s of
        c0 # c1 # c2 # c3 # r \<Rightarrow>
          if c0 = (of_char CHR ''<'') \<and> toLowerChar c1 = (of_char CHR ''k'') \<and> toLowerChar c2 = (of_char CHR ''e'')
             \<and> toLowerChar c3 = (of_char CHR ''y'')
          then (case dropWhile isSpace r of
                  e # r2 \<Rightarrow>
                    if e = (of_char CHR ''='') \<and> (of_char CHR ''>'') \<in> set (dropWhile isSpace r2)
                    then Some (takeWhile (\<lambda>c. c \<noteq> (of_char CHR ''>'')) (dropWhile isSpace r2))
                    else None
                | [] \<Rightarrow> None)
          else None
      | _ \<Rightarrow> None)"

fun KEY_REGEX_EXTRACT :: "jsstring \<Rightarrow> jsstring option" where
  "KEY_REGEX_EXTRACT [] = None"
| "KEY_REGEX_EXTRACT (c # cs) =
     (case keyAt (c # cs) of Some k \<Rightarrow> Some k | None \<Rightarrow> KEY_REGEX_EXTRACT cs)"

text \<open>\<open>regex.test(text)\<close>: whether the pattern has a match in the text.\<close>

definition test :: "(jsstring \<Rightarrow> 'a option) \<Rightarrow> jsstring \<Rightarrow> bool" where
  "test regex text \<longleftrightarrow> regex text \<noteq> None"

section \<open>The content tree\<close>

text \<open>
  A DOM node is an element (name, attributes, children) or a text node.  Comments and
  processing instructions do not occur in the parts the engine reads and are left out.
\<close>

datatype xml = Elem string "(string \<times> string) list" "xml list" | Txt jsstring

fun nodeName :: "xml \<Rightarrow> string" where
  "nodeName (Elem n as cs) = n"
| "nodeName (Txt s) = ''#text''"

fun childNodes :: "xml \<Rightarrow> xml list" where
  "childNodes (Elem n as cs) = cs"
| "childNodes (Txt s) = []"

fun isElement :: "xml \<Rightarrow> bool" where
  "isElement (Elem n as cs) = True"
| "isElement (Txt s) = False"

fun getAttribute :: "xml \<Rightarrow> string \<Rightarrow> string option" where
  "getAttribute (Elem n as cs) a = map_of as a"
| "getAttribute (Txt s) a = None"

fun textContent :: "xml \<Rightarrow> jsstring" where
  "textContent (Txt s) = s"
| "textContent (Elem n as cs) = concat (map textContent cs)"

text \<open>The descendants of a node in document order, the node itself excluded.\<close>

fun descendants :: "xml \<Rightarrow> xml list" where
  "descendants (Txt s) = []"
| "descendants (Elem n as cs) = concat (map (\<lambda>c. c # descendants c) cs)"

definition getElementsByTagName :: "xml \<Rightarrow> string \<Rightarrow> xml list" where
  "getElementsByTagName x nm = filter (\<lambda>d. isElement d \<and> nodeName d = nm) (descendants x)"

text \<open>
  \<open>hasUnderline\<close>: some run \<open>w:r\<close> below the node has a first \<open>w:rPr\<close> whose first
  \<open>w:u\<close> has no \<open>w:val\<close>, an empty one, or one other than \<open>none\<close>.
\<close>

definition underlineOn :: "xml \<Rightarrow> bool" where
  "underlineOn u =
     (case getAttribute u ''w:val'' of None \<Rightarrow> True | Some val \<Rightarrow> val = [] \<or> val \<noteq> ''none'')"

definition runUnderlined :: "xml \<Rightarrow> bool" where
  "runUnderlined r =
     (case getElementsByTagName r ''w:rPr'' of
        [] \<Rightarrow> False
      | rPr # _ \<Rightarrow>
          (case getElementsByTagName rPr ''w:u'' of [] \<Rightarrow> False | u # _ \<Rightarrow> underlineOn u))"

definition hasUnderline :: "xml \<Rightarrow> bool" where
  "hasUnderline pNode = list_ex runUnderlined (getElementsByTagName pNode ''w:r'')"

section \<open>Questions and validation issues\<close>

datatype QuestionType = MCQ | TRUE_FALSE | SHORT_ANSWER | ESSAY | UNKNOWN

text \<open>
  \<open>xmlContent\<close> holds the serialisation of each node of the question; the model keeps the
  nodes themselves.  The fields \<open>section\<close>, \<open>textContent\<close> and \<open>hasUnderline\<close> of a question carry
  the suffix \<open>Q\<close>, the plain names being the DOM functions above.
\<close>

record QuestionBlock =
  qid :: jsstring
  originalIndex :: nat
  label :: jsstring
  sectionQ :: jsstring
  qtype :: QuestionType
  xmlContent :: "xml list"
  textContentQ :: jsstring
  isValid :: bool
  hasUnderlineQ :: bool
  hasKeyTag :: bool
  detectedOptionNodes :: "nat option"

datatype Severity = SevError | SevWarning

record ValidationIssue =
  questionId :: jsstring
  questionIndex :: nat
  questionLabel :: jsstring
  questionType :: QuestionType
  issue :: jsstring
  suggestion :: jsstring
  severity :: Severity


definition msgOptionsNotSplit :: jsstring where
  "msgOptionsNotSplit = (js ''C'') @ [0xE1] @ (js ''c '') @ [0x111, 0xE1] @ (js ''p '') @ [0xE1] @ (js ''n kh'') @ [0xF4] @ (js ''ng n'') @ [0x1EB1] @ (js ''m tr'') @ [0xEA] @ (js ''n d'') @ [0xF2] @ (js ''ng ri'') @ [0xEA] @ (js ''ng bi'') @ [0x1EC7] @ (js ''t.'')"

definition hintOptionsNotSplit :: jsstring where
  "hintOptionsNotSplit = (js ''Vui l'') @ [0xF2] @ (js ''ng ng'') @ [0x1EAF] @ (js ''t d'') @ [0xF2] @ (js ''ng (Enter) gi'') @ [0x1EEF] @ (js ''a c'') @ [0xE1] @ (js ''c '') @ [0x111, 0xE1] @ (js ''p '') @ [0xE1] @ (js ''n A, B, C, D '') @ [0x111, 0x1EC3] @ (js '' ph'') @ [0x1EA7] @ (js ''n m'') @ [0x1EC1] @ (js ''m c'') @ [0xF3] @ (js '' th'') @ [0x1EC3] @ (js '' tr'') @ [0x1ED9] @ (js ''n.'')"

definition msgNoUnderlineMCQ :: jsstring where
  "msgNoUnderlineMCQ = (js ''Ch'') @ [0x1B0] @ (js ''a g'') @ [0x1EA1] @ (js ''ch ch'') @ [0xE2] @ (js ''n '') @ [0x111, 0xE1] @ (js ''p '') @ [0xE1] @ (js ''n '') @ [0x111, 0xFA] @ (js ''ng.'')"

definition hintNoUnderlineMCQ :: jsstring where
  "hintNoUnderlineMCQ = (js ''Vui l'') @ [0xF2] @ (js ''ng g'') @ [0x1EA1] @ (js ''ch ch'') @ [0xE2] @ (js ''n (Underline) v'') @ [0xE0] @ (js ''o '') @ [0x111, 0xE1] @ (js ''p '') @ [0xE1] @ (js ''n '') @ [0x111, 0xFA] @ (js ''ng (A, B, C ho'') @ [0x1EB7] @ (js ''c D).'')"

definition msgNoUnderlineTF :: jsstring where
  "msgNoUnderlineTF = (js ''Ch'') @ [0x1B0] @ (js ''a c'') @ [0xF3] @ (js '' '') @ [0xFD] @ (js '' n'') @ [0xE0] @ (js ''o '') @ [0x111, 0x1B0, 0x1EE3] @ (js ''c g'') @ [0x1EA1] @ (js ''ch ch'') @ [0xE2] @ (js ''n ('') @ [0x110, 0xFA] @ (js ''ng).'')"

definition hintNoUnderlineTF :: jsstring where
  "hintNoUnderlineTF = (js ''G'') @ [0x1EA1] @ (js ''ch ch'') @ [0xE2] @ (js ''n v'') @ [0xE0] @ (js ''o c'') @ [0xE1] @ (js ''c '') @ [0xFD] @ (js '' '') @ [0x110, 0xFA] @ (js ''ng (a, b, c, d). N'') @ [0x1EBF] @ (js ''u t'') @ [0x1EA5] @ (js ''t c'') @ [0x1EA3] @ (js '' '') @ [0x111, 0x1EC1] @ (js ''u Sai, h'') @ [0xE3] @ (js ''y ki'') @ [0x1EC3] @ (js ''m tra l'') @ [0x1EA1] @ (js ''i xem '') @ [0x111, 0xE3] @ (js '' '') @ [0x111, 0x1ECB] @ (js ''nh d'') @ [0x1EA1] @ (js ''ng '') @ [0x111, 0xFA] @ (js ''ng ch'') @ [0x1B0] @ (js ''a.'')"

definition msgNoKeyTag :: jsstring where
  "msgNoKeyTag = (js ''Thi'') @ [0x1EBF] @ (js ''u th'') @ [0x1EBB] @ (js '' '') @ [0x111, 0xE1] @ (js ''p '') @ [0xE1] @ (js ''n <Key=...>.'')"

definition hintNoKeyTag :: jsstring where
  "hintNoKeyTag = (js ''Th'') @ [0xEA] @ (js ''m th'') @ [0x1EBB] @ (js '' <Key=Gi'') @ [0xE1] @ (js '' tr'') @ [0x1ECB] @ (js ''> v'') @ [0xE0] @ (js ''o cu'') @ [0x1ED1] @ (js ''i c'') @ [0xE2] @ (js ''u h'') @ [0x1ECF] @ (js ''i.'')"

definition msgEssayShort :: jsstring where
  "msgEssayShort = (js ''N'') @ [0x1ED9] @ (js ''i dung c'') @ [0xE2] @ (js ''u t'') @ [0x1EF1] @ (js '' lu'') @ [0x1EAD] @ (js ''n qu'') @ [0xE1] @ (js '' ng'') @ [0x1EAF] @ (js ''n ho'') @ [0x1EB7] @ (js ''c tr'') @ [0x1ED1] @ (js ''ng.'')"

definition hintEssayShort :: jsstring where
  "hintEssayShort = (js ''Ki'') @ [0x1EC3] @ (js ''m tra l'') @ [0x1EA1] @ (js ''i n'') @ [0x1ED9] @ (js ''i dung c'') @ [0xE2] @ (js ''u h'') @ [0x1ECF] @ (js ''i.'')"

definition msgUnknownType :: jsstring where
  "msgUnknownType = (js ''Kh'') @ [0xF4] @ (js ''ng nh'') @ [0x1EAD] @ (js ''n di'') @ [0x1EC7] @ (js ''n '') @ [0x111, 0x1B0, 0x1EE3] @ (js ''c d'') @ [0x1EA1] @ (js ''ng c'') @ [0xE2] @ (js ''u h'') @ [0x1ECF] @ (js ''i.'')"

definition hintUnknownType :: jsstring where
  "hintUnknownType = (js ''Ki'') @ [0x1EC3] @ (js ''m tra l'') @ [0x1EA1] @ (js ''i '') @ [0x111, 0x1ECB] @ (js ''nh d'') @ [0x1EA1] @ (js ''ng. N'') @ [0x1EBF] @ (js ''u l'') @ [0xE0] @ (js '' t'') @ [0x1EF1] @ (js '' lu'') @ [0x1EAD] @ (js ''n, h'') @ [0xE3] @ (js ''y '') @ [0x111, 0x1EA3] @ (js ''m b'') @ [0x1EA3] @ (js ''o n'') @ [0xF3] @ (js '' n'') @ [0x1EB1] @ (js ''m trong ph'') @ [0x1EA7] @ (js ''n c'') @ [0xF3] @ (js '' ti'') @ [0xEA] @ (js ''u '') @ [0x111, 0x1EC1] @ (js '' '') @ [0x27] @ (js ''PH'') @ [0x1EA6] @ (js ''N IV'') @ [0x27] @ (js '' ho'') @ [0x1EB7] @ (js ''c '') @ [0x27] @ (js ''T'') @ [0x1EF0] @ (js '' LU'') @ [0x1EAC] @ (js ''N'') @ [0x27] @ (js ''.'')"

definition mkIssue :: "nat \<Rightarrow> QuestionBlock \<Rightarrow> jsstring \<Rightarrow> jsstring \<Rightarrow> Severity \<Rightarrow> ValidationIssue" where
  "mkIssue index q msg hint sev =
     \<lparr> questionId = qid q, questionIndex = index, questionLabel = label q,
       questionType = qtype q, issue = msg, suggestion = hint, severity = sev \<rparr>"

text \<open>
  \<open>issuesOf\<close> is the body of the \<open>forEach\<close> of \<open>getValidationIssues\<close>: the issues
  pushed for the question at one index, in the order of the pushes.
\<close>

definition issuesOf :: "nat \<Rightarrow> QuestionBlock \<Rightarrow> ValidationIssue list" where
  "issuesOf index q =
     (if qtype q = MCQ then
        (if (case detectedOptionNodes q of None \<Rightarrow> False | Some k \<Rightarrow> k < 2)
         then [mkIssue index q msgOptionsNotSplit hintOptionsNotSplit SevError] else [])
        @ (if \<not> hasUnderlineQ q
           then [mkIssue index q msgNoUnderlineMCQ hintNoUnderlineMCQ SevError] else [])
      else if qtype q = TRUE_FALSE then
        (if \<not> hasUnderlineQ q
         then [mkIssue index q msgNoUnderlineTF hintNoUnderlineTF SevWarning] else [])
      else if qtype q = SHORT_ANSWER then
        (if \<not> hasKeyTag q
         then [mkIssue index q msgNoKeyTag hintNoKeyTag SevError] else [])
      else if qtype q = ESSAY then
        (if textContentQ q = [] \<or> jsLength (trim (textContentQ q)) < 5
         then [mkIssue index q msgEssayShort hintEssayShort SevWarning] else [])
      else if qtype q = UNKNOWN then
        [mkIssue index q msgUnknownType hintUnknownType SevError]
      else [])"

definition getValidationIssues :: "QuestionBlock list \<Rightarrow> ValidationIssue list" where
  "getValidationIssues questions =
     concat (map (\<lambda>(index, q). issuesOf index q) (zip [0 ..< length questions] questions))"

section \<open>Type detection\<close>

text \<open>
  The two line tests of \<open>detectType\<close>, \<open>/^([A-D])[\.\)\:]/\<close> and
  \<open>/^([a-d])[\)\.]/\<close>, and its fallback \<open>/A[\.\)\:].*B[\.\)\:].*C[\.\)\:]/s\<close>.
  With the flag \<open>s\<close> the dot matches every character, so the fallback matches when the
  leftmost \<open>A\<close> marker is followed somewhere by a \<open>B\<close> marker and that one by a
  \<open>C\<close> marker; \<open>afterMarker\<close> returns the text after the leftmost marker of a letter.
\<close>

definition mcqLine :: "jsstring \<Rightarrow> bool" where
  "mcqLine l = (case l of c # d # _ \<Rightarrow> c \<in> set (js ''ABCD'') \<and> isSeparator d | _ \<Rightarrow> False)"

definition tfLine :: "jsstring \<Rightarrow> bool" where
  "tfLine l = (case l of c # d # _ \<Rightarrow> c \<in> set (js ''abcd'') \<and> d \<in> set (js '').'') | _ \<Rightarrow> False)"

fun afterMarker :: "int \<Rightarrow> jsstring \<Rightarrow> jsstring option" where
  "afterMarker L (c # d # r) =
     (if c = L \<and> isSeparator d then Some r else afterMarker L (d # r))"
| "afterMarker L _ = None"

definition inlineOptions :: "jsstring \<Rightarrow> bool" where
  "inlineOptions text =
     (case afterMarker (of_char CHR ''A'') text of
        None \<Rightarrow> False
      | Some r \<Rightarrow>
          (case afterMarker (of_char CHR ''B'') r of
             None \<Rightarrow> False
           | Some r' \<Rightarrow> afterMarker (of_char CHR ''C'') r' \<noteq> None))"

definition mcqCount :: "jsstring \<Rightarrow> nat" where
  "mcqCount text = length (filter mcqLine (map trim (splitOn 0x0A text)))"

definition tfCount :: "jsstring \<Rightarrow> nat" where
  "tfCount text = length (filter tfLine (map trim (splitOn 0x0A text)))"

definition detectType :: "jsstring \<Rightarrow> QuestionType" where
  "detectType text =
     (if test KEY_REGEX_EXTRACT text then SHORT_ANSWER
      else if mcqCount text \<ge> 2 \<and> mcqCount text > tfCount text then MCQ
      else if tfCount text \<ge> 2 \<and> tfCount text > mcqCount text then TRUE_FALSE
      else if inlineOptions text then MCQ
      else UNKNOWN)"

text \<open>
  The reading of the specification's rule 3: some single line of the text holds at least
  three uppercase option markers (a letter \<open>A\<close> .. \<open>D\<close> followed by a separator).
\<close>

fun markerCount :: "jsstring \<Rightarrow> nat" where
  "markerCount (c # d # r) =
     (if c \<in> set (js ''ABCD'') \<and> isSeparator d then Suc (markerCount r) else markerCount (d # r))"
| "markerCount _ = 0"

definition specInlineRun :: "jsstring \<Rightarrow> bool" where
  "specInlineRun text = list_ex (\<lambda>l. 3 \<le> markerCount l) (splitOn 0x0A text)"

section \<open>The answer resolver\<close>

definition labelsABCD :: "jsstring list" where
  "labelsABCD = [(js ''A''), (js ''B''), (js ''C''), (js ''D'')]"

definition trueMark :: jsstring where
  "trueMark = [0x110]"

definition falseMark :: jsstring where
  "falseMark = (js ''S'')"

text \<open>
  The loop of the MCQ branch of \<open>getAnswerFromNodes\<close>, with its two variables
  \<open>currentOptionLabelIndex\<close> and \<open>answerByPosition\<close>.
\<close>

fun mcqAnswerLoop :: "xml list \<Rightarrow> nat \<Rightarrow> jsstring \<Rightarrow> jsstring" where
  "mcqAnswerLoop [] currentOptionLabelIndex answerByPosition = answerByPosition"
| "mcqAnswerLoop (node # nodes) currentOptionLabelIndex answerByPosition =
     (if test OPTION_PREFIX_REGEX (textContent node) then
        (if hasUnderline node then
           (case OPTION_PREFIX_REGEX (textContent node) of
              Some (_, letter, _, _, _) \<Rightarrow> [toUpperChar letter]
            | None \<Rightarrow>
                mcqAnswerLoop nodes (currentOptionLabelIndex + 1)
                  (if currentOptionLabelIndex < length labelsABCD
                   then labelsABCD ! currentOptionLabelIndex else answerByPosition))
         else mcqAnswerLoop nodes (currentOptionLabelIndex + 1) answerByPosition)
      else mcqAnswerLoop nodes currentOptionLabelIndex answerByPosition)"

definition getAnswerFromNodes :: "xml list \<Rightarrow> QuestionType \<Rightarrow> jsstring \<Rightarrow> jsstring" where
  "getAnswerFromNodes nodes type originalText =
     (if type = SHORT_ANSWER then
        (case KEY_REGEX_EXTRACT originalText of Some k \<Rightarrow> trim k | None \<Rightarrow> [])
      else if type = ESSAY then []
      else if type = MCQ then mcqAnswerLoop nodes 0 []
      else if type = TRUE_FALSE then
        concat (map (\<lambda>node. if hasUnderline node then trueMark else falseMark)
                  (filter (\<lambda>node. test OPTION_PREFIX_REGEX (textContent node)) nodes))
      else [])"

section \<open>Random choices, Fisher-Yates, balanced keys\<close>

text \<open>
  \<open>Math.random\<close> is an unending supply of values, consumed one per call.  The model
  supplies raw natural numbers; \<open>Math.floor(Math.random() * n)\<close> is the next raw value
  modulo \<open>n\<close>, so that every index below \<open>n\<close> can be drawn and no other.
\<close>

type_synonym rng = "nat \<Rightarrow> nat"

definition randomBelow :: "nat \<Rightarrow> rng \<Rightarrow> nat \<times> rng" where
  "randomBelow n g = (g 0 mod n, \<lambda>k. g (Suc k))"

fun shuffleLoop :: "nat \<Rightarrow> 'a list \<Rightarrow> rng \<Rightarrow> 'a list \<times> rng" where
  "shuffleLoop 0 newArr g = (newArr, g)"
| "shuffleLoop (Suc i) newArr g =
     (case randomBelow (Suc i + 1) g of
        (j, g') \<Rightarrow> shuffleLoop i (newArr[Suc i := newArr ! j, j := newArr ! Suc i]) g')"

definition shuffleArray :: "'a list \<Rightarrow> rng \<Rightarrow> 'a list \<times> rng" where
  "shuffleArray array g = shuffleLoop (length array - 1) array g"

definition generateBalancedKeys :: "nat \<Rightarrow> rng \<Rightarrow> jsstring list \<times> rng" where
  "generateBalancedKeys totalQuestions g =
     (let options = [(js ''A''), (js ''B''), (js ''C''), (js ''D'')];
          baseCount = totalQuestions div 4;
          remainder = totalQuestions mod 4;
          keys = concat (map (\<lambda>i. replicate baseCount (options ! i)) [0 ..< 4])
      in if remainder > 0
         then (case shuffleArray options g of
                 (shuffled, g') \<Rightarrow> shuffleArray (keys @ take remainder shuffled) g')
         else shuffleArray keys g)"

section \<open>The validity table of the specification\<close>

text \<open>
  The number of requirements of the specification's validity table that a question fails:
  for MCQ, at least two option nodes and an underline; for TRUE_FALSE, an underline; for
  SHORT_ANSWER, the key marker; for ESSAY, a text of at least five characters once trimmed;
  UNKNOWN is never valid.
\<close>

definition specFailedRules :: "QuestionBlock \<Rightarrow> nat" where
  "specFailedRules q =
     (case qtype q of
        MCQ \<Rightarrow>
          (if (case detectedOptionNodes q of None \<Rightarrow> False | Some k \<Rightarrow> k < 2) then 1 else 0)
          + (if hasUnderlineQ q then 0 else 1)
      | TRUE_FALSE \<Rightarrow> (if hasUnderlineQ q then 0 else 1)
      | SHORT_ANSWER \<Rightarrow> (if hasKeyTag q then 0 else 1)
      | ESSAY \<Rightarrow> (if jsLength (trim (textContentQ q)) < 5 then 1 else 0)
      | UNKNOWN \<Rightarrow> 1)"

section \<open>Sample documents\<close>

text \<open>
  A run \<open>w:r\<close> holding one text element, underlined or not, and a paragraph of runs.
\<close>

definition run :: "bool \<Rightarrow> jsstring \<Rightarrow> xml" where
  "run underlined text =
     Elem ''w:r'' []
       ((if underlined then [Elem ''w:rPr'' [] [Elem ''w:u'' [(''w:val'', ''single'')] []]] else [])
        @ [Elem ''w:t'' [] [Txt text]])"

definition par :: "xml list \<Rightarrow> xml" where
  "par runs = Elem ''w:p'' [] runs"

text \<open>The question of the scenario: a stem and four options, the label of C underlined.\<close>

definition scenarioStem :: jsstring where
  "scenarioStem = (js ''C'') @ [0xE2] @ (js ''u 1: ...'')"

definition scenarioNodes :: "xml list" where
  "scenarioNodes =
     [par [run False scenarioStem],
      par [run False (js ''A. opt'')],
      par [run False (js ''B. opt'')],
      par [run True (js ''C.''), run False (js '' opt'')],
      par [run False (js ''D. opt'')]]"

text \<open>
  A question whose second option is the underlined letter alone, as when its content is a
  picture: the paragraph matches the loose pattern only.
\<close>

definition letterOnlyQuestion :: "xml list" where
  "letterOnlyQuestion =
     [par [run False scenarioStem],
      par [run False (js ''A. opt'')],
      par [run True (js ''B'')],
      par [run False (js ''C. opt'')]]"

text \<open>An essay question without any text.\<close>

definition emptyEssay :: QuestionBlock where
  "emptyEssay =
     \<lparr> qid = (js ''q''), originalIndex = 0, label = (js ''C'') @ [0xE2] @ (js ''u 1''),
       sectionQ = [], qtype = ESSAY, xmlContent = [par []], textContentQ = [],
       isValid = True, hasUnderlineQ = False, hasKeyTag = False,
       detectedOptionNodes = Some 0 \<rparr>"

text \<open>A text with the markers A, B, C on three lines, none at the start of its line.\<close>

definition markersOnThreeLines :: jsstring where
  "markersOnThreeLines = (js ''1 A. x'') @ [0x0A] @ (js ''2 B. y'') @ [0x0A] @ (js ''3 C. z'')"

definition markersOnOneLine :: jsstring where
  "markersOnOneLine = (js ''Tinh: A. 1  B. 2  C. 3  D. 4'')"

section \<open>Errors\<close>

text \<open>
  \<open>Error msg\<close> is \<open>new Error(msg)\<close> thrown by the engine; \<open>NotFoundError\<close> is the
  DOM exception of \<open>removeChild\<close> on a node that is not a child,
  \<open>HierarchyRequestError\<close> that of \<open>appendChild\<close> on a text node, and
  \<open>TypeError\<close> stands for calling an element method on a text node.
\<close>

datatype error = Error jsstring | NotFoundError | HierarchyRequestError | TypeError

section \<open>Editing the tree\<close>

text \<open>
  \<open>updFirst f nm xs\<close> rewrites with \<open>f\<close> the first element named \<open>nm\<close>, in
  document order, among the nodes \<open>xs\<close> and their descendants; \<open>None\<close> when there is no
  such element.  It reaches the element that \<open>getElementsByTagName(nm)[0]\<close> returns.
\<close>

fun updFirst :: "(xml \<Rightarrow> error + xml) \<Rightarrow> string \<Rightarrow> xml list \<Rightarrow> (error + xml list) option" where
  "updFirst f nm [] = None"
| "updFirst f nm (Txt s # xs) =
     (case updFirst f nm xs of
        None \<Rightarrow> None
      | Some (Inl e) \<Rightarrow> Some (Inl e)
      | Some (Inr xs') \<Rightarrow> Some (Inr (Txt s # xs')))"
| "updFirst f nm (Elem n as cs # xs) =
     (if n = nm then
        (case f (Elem n as cs) of Inl e \<Rightarrow> Some (Inl e) | Inr x' \<Rightarrow> Some (Inr (x' # xs)))
      else
        (case updFirst f nm cs of
           Some (Inl e) \<Rightarrow> Some (Inl e)
         | Some (Inr cs') \<Rightarrow> Some (Inr (Elem n as cs' # xs))
         | None \<Rightarrow>
             (case updFirst f nm xs of
                None \<Rightarrow> None
              | Some (Inl e) \<Rightarrow> Some (Inl e)
              | Some (Inr xs') \<Rightarrow> Some (Inr (Elem n as cs # xs')))))"

text \<open>
  \<open>parent.removeChild(parent.getElementsByTagName(nm)[0])\<close> on the children of
  \<open>parent\<close>, when there is such a descendant: the first descendant named \<open>nm\<close> is
  removed when it is a child, and the call throws when it lies deeper.
\<close>

fun removeFirstNamed :: "string \<Rightarrow> xml list \<Rightarrow> error + xml list" where
  "removeFirstNamed nm [] = Inr []"
| "removeFirstNamed nm (c # cs) =
     (if isElement c \<and> nodeName c = nm then Inr cs
      else if getElementsByTagName c nm \<noteq> [] then Inl NotFoundError
      else (case removeFirstNamed nm cs of Inl e \<Rightarrow> Inl e | Inr cs' \<Rightarrow> Inr (c # cs')))"

text \<open>
  \<open>styleProps\<close> is what \<open>applyRunStyle(runNode, {bold, color})\<close> does to the
  properties element \<open>w:rPr\<close> of the run.
\<close>

definition styleProps :: "bool \<Rightarrow> string option \<Rightarrow> xml \<Rightarrow> error + xml" where
  "styleProps bold color rPr =
     (case rPr of
        Txt s \<Rightarrow> Inr (Txt s)
      | Elem n as cs \<Rightarrow>
          (let cs1 = (if bold \<and> getElementsByTagName rPr ''w:b'' = []
                      then cs @ [Elem ''w:b'' [] []] else cs)
           in case color of
                None \<Rightarrow> Inr (Elem n as cs1)
              | Some val \<Rightarrow>
                  if val = [] then Inr (Elem n as cs1)
                  else (case removeFirstNamed ''w:color'' cs1 of
                          Inl e \<Rightarrow> Inl e
                        | Inr cs2 \<Rightarrow>
                            Inr (Elem n as (cs2 @ [Elem ''w:color'' [(''w:val'', val)] []])))))"

text \<open>
  \<open>onRunProps f runNode\<close>: the properties element of the run is
  \<open>runNode.getElementsByTagName("w:rPr")[0]\<close>, or a new empty \<open>w:rPr\<close> inserted
  before the first child of the run when there is none; \<open>f\<close> rewrites it in place.
\<close>

definition onRunProps :: "(xml \<Rightarrow> error + xml) \<Rightarrow> xml \<Rightarrow> error + xml" where
  "onRunProps f runNode =
     (case runNode of
        Txt s \<Rightarrow> Inr (Txt s)
      | Elem n as cs \<Rightarrow>
          (case updFirst f ''w:rPr'' cs of
             None \<Rightarrow>
               (case f (Elem ''w:rPr'' [] []) of
                  Inl e \<Rightarrow> Inl e
                | Inr rPr \<Rightarrow> Inr (Elem n as (rPr # cs)))
           | Some (Inl e) \<Rightarrow> Inl e
           | Some (Inr cs') \<Rightarrow> Inr (Elem n as cs')))"

definition applyRunStyle :: "xml \<Rightarrow> bool \<Rightarrow> string option \<Rightarrow> error + xml" where
  "applyRunStyle runNode bold color = onRunProps (styleProps bold color) runNode"

text \<open>Assigning \<open>node.textContent\<close>: the children become one text node, or none.\<close>

fun setTextContent :: "jsstring \<Rightarrow> xml \<Rightarrow> xml" where
  "setTextContent t (Elem n as cs) = Elem n as (if t = [] then [] else [Txt t])"
| "setTextContent t (Txt s) = Txt t"

section \<open>Relabelling an option\<close>

definition standardRegex :: "jsstring \<Rightarrow> (jsstring \<times> int \<times> jsstring \<times> int \<times> jsstring) option" where
  "standardRegex = OPTION_PREFIX_REGEX"

text \<open>
  The two replacements of \<open>replaceOptionLabel\<close>: \<open>$1 newLabel separator\<close> for the
  standard pattern, \<open>$1 newLabel $3\<close> for the loose one.  The labels and separators the
  engine passes hold no \<open>$\<close>.
\<close>

definition relabelledText :: "jsstring \<Rightarrow> jsstring \<Rightarrow> jsstring \<Rightarrow> jsstring option" where
  "relabelledText text newLabel separator =
     (case standardRegex text of
        Some (s1, letter, s3, sep, rest) \<Rightarrow> Some (s1 @ newLabel @ separator @ rest)
      | None \<Rightarrow>
          (case looseRegex text of
             Some (s1, letter, s3) \<Rightarrow> Some (s1 @ newLabel @ s3)
           | None \<Rightarrow> None))"

text \<open>
  The first part of \<open>replaceOptionLabel\<close>: the node is a \<open>w:t\<close> with a text that one of
  the two patterns matches; the result is the node with its new text.
\<close>

definition relabelText :: "xml \<Rightarrow> jsstring \<Rightarrow> jsstring \<Rightarrow> xml option" where
  "relabelText node newLabel separator =
     (if isElement node \<and> nodeName node = ''w:t'' \<and> textContent node \<noteq> []
      then (case relabelledText (textContent node) newLabel separator of
              None \<Rightarrow> None
            | Some t \<Rightarrow> Some (setTextContent t node))
      else None)"

text \<open>
  \<open>replaceOptionLabel\<close> returns \<open>Inr None\<close> for \<open>false\<close> (nothing changed) and
  \<open>Inr (Some node')\<close> for \<open>true\<close>, \<open>node'\<close> being the node after the change.  The
  style is applied to the parent of the rewritten \<open>w:t\<close> when that parent is a run: the
  loop over the children reports whether the child it rewrote was itself the \<open>w:t\<close>.
\<close>

fun replaceOptionLabel :: "xml \<Rightarrow> jsstring \<Rightarrow> jsstring \<Rightarrow> error + xml option"
  and replaceInChildren :: "xml list \<Rightarrow> jsstring \<Rightarrow> jsstring \<Rightarrow> error + (xml list \<times> bool) option"
where
  "replaceOptionLabel (Txt s) newLabel separator = Inr None"
| "replaceOptionLabel (Elem n as cs) newLabel separator =
     (case relabelText (Elem n as cs) newLabel separator of
        Some node' \<Rightarrow> Inr (Some node')
      | None \<Rightarrow>
          (case replaceInChildren cs newLabel separator of
             Inl e \<Rightarrow> Inl e
           | Inr None \<Rightarrow> Inr None
           | Inr (Some (cs', direct)) \<Rightarrow>
               if direct \<and> n = ''w:r''
               then (case applyRunStyle (Elem n as cs') True (Some ''0000FF'') of
                       Inl e \<Rightarrow> Inl e
                     | Inr runNode \<Rightarrow> Inr (Some runNode))
               else Inr (Some (Elem n as cs'))))"
| "replaceInChildren [] newLabel separator = Inr None"
| "replaceInChildren (c # cs) newLabel separator =
     (case replaceOptionLabel c newLabel separator of
        Inl e \<Rightarrow> Inl e
      | Inr (Some c') \<Rightarrow> Inr (Some (c' # cs, relabelText c newLabel separator \<noteq> None))
      | Inr None \<Rightarrow>
          (case replaceInChildren cs newLabel separator of
             Inl e \<Rightarrow> Inl e
           | Inr None \<Rightarrow> Inr None
           | Inr (Some (cs', direct)) \<Rightarrow> Inr (Some (c # cs', direct))))"

section \<open>The option shuffle\<close>

record scan =
  optionIndices :: "nat list"
  correctOptionIndexOriginal :: "nat option"
  detectedSeparator :: jsstring

text \<open>
  The first loop of \<open>shuffleQuestionOptions\<close>; the index \<open>-1\<close> of the source is
  \<open>None\<close>.
\<close>

definition scanNode :: "QuestionType \<Rightarrow> xml \<Rightarrow> nat \<Rightarrow> scan \<Rightarrow> scan" where
  "scanNode type node idx st =
     (case OPTION_PREFIX_REGEX (textContent node) of
        Some (s1, letter, s3, sep, rest) \<Rightarrow>
          st\<lparr> optionIndices := optionIndices st @ [idx],
              detectedSeparator := [sep],
              correctOptionIndexOriginal :=
                (if type = MCQ \<and> hasUnderline node then Some idx
                 else correctOptionIndexOriginal st) \<rparr>
      | None \<Rightarrow>
          if test looseRegex (textContent node)
          then st\<lparr> optionIndices := optionIndices st @ [idx],
                   correctOptionIndexOriginal :=
                     (if type = MCQ \<and> hasUnderline node then Some idx
                      else correctOptionIndexOriginal st) \<rparr>
          else st)"

fun scanOptions :: "QuestionType \<Rightarrow> xml list \<Rightarrow> nat \<Rightarrow> scan \<Rightarrow> scan" where
  "scanOptions type [] idx st = st"
| "scanOptions type (node # nodes) idx st =
     scanOptions type nodes (idx + 1) (scanNode type node idx st)"

definition targetMap :: "jsstring \<Rightarrow> nat option" where
  "targetMap = map_of [((js ''A''), 0), ((js ''B''), 1), ((js ''C''), 2), ((js ''D''), 3)]"

text \<open>
  The loop that builds \<open>shuffledNodes\<close> around the pinned node: position \<open>targetIndex\<close>
  takes the correct node, every other position the next distractor, or the correct node
  once the distractors are used up.
\<close>

fun pinLoop :: "nat list \<Rightarrow> nat \<Rightarrow> 'a \<Rightarrow> 'a list \<Rightarrow> 'a list" where
  "pinLoop [] targetIndex correctNode shuffledDistractors = []"
| "pinLoop (i # is) targetIndex correctNode shuffledDistractors =
     (if i = targetIndex
      then correctNode # pinLoop is targetIndex correctNode shuffledDistractors
      else (case shuffledDistractors of
              [] \<Rightarrow> correctNode # pinLoop is targetIndex correctNode []
            | d # ds \<Rightarrow> d # pinLoop is targetIndex correctNode ds))"

definition labelsMCQ :: "jsstring list" where
  "labelsMCQ = [(js ''A''), (js ''B''), (js ''C''), (js ''D''), (js ''E''), (js ''F'')]"

definition labelsTF :: "jsstring list" where
  "labelsTF = [(js ''a''), (js ''b''), (js ''c''), (js ''d''), (js ''e''), (js ''f'')]"

text \<open>
  The label of a position; beyond the table the source reads \<open>undefined\<close>, which the
  template of the replacement renders as the text \<open>undefined\<close>.
\<close>

definition labelAt :: "jsstring list \<Rightarrow> nat \<Rightarrow> jsstring" where
  "labelAt labels idx = (if idx < length labels then labels ! idx else (js ''undefined''))"

fun relabelAll :: "QuestionType \<Rightarrow> jsstring \<Rightarrow> xml list \<Rightarrow> nat \<Rightarrow> error + xml list" where
  "relabelAll type detectedSep [] idx = Inr []"
| "relabelAll type detectedSep (node # nodes) idx =
     (case replaceOptionLabel node
             (labelAt (if type = MCQ then labelsMCQ else labelsTF) idx)
             (if type = MCQ then (js ''.'') else detectedSep) of
        Inl e \<Rightarrow> Inl e
      | Inr r \<Rightarrow>
          (case relabelAll type detectedSep nodes (idx + 1) of
             Inl e \<Rightarrow> Inl e
           | Inr nodes' \<Rightarrow> Inr ((case r of None \<Rightarrow> node | Some node' \<Rightarrow> node') # nodes')))"

fun putBack :: "nat list \<Rightarrow> 'a list \<Rightarrow> 'a list \<Rightarrow> 'a list" where
  "putBack (oi # ois) (s # ss) newNodes = putBack ois ss (newNodes[oi := s])"
| "putBack _ _ newNodes = newNodes"

text \<open>
  \<open>shuffleQuestionOptions(nodes, type, targetLabel)\<close>.  The nodes of a question are
  distinct objects, so the filter \<open>n !== correctNode\<close> drops exactly the node at the
  index \<open>correctOptionIndexOriginal\<close>.  A target label other than A, B, C, D maps to 0.
\<close>

definition shuffleQuestionOptions ::
  "xml list \<Rightarrow> QuestionType \<Rightarrow> jsstring option \<Rightarrow> rng \<Rightarrow> error + (xml list \<times> rng)" where
  "shuffleQuestionOptions nodes type targetLabel g =
     (if type = ESSAY then Inr (nodes, g)
      else
        (let st = scanOptions type nodes 0
                    \<lparr> optionIndices = [], correctOptionIndexOriginal = None,
                      detectedSeparator = (js ''.'') \<rparr>;
             ois = optionIndices st
         in if length ois < 2 then Inr (nodes, g)
            else
              (let optionNodes = map (\<lambda>i. nodes ! i) ois;
                   pinned = (type = MCQ \<and> targetLabel \<noteq> None \<and> targetLabel \<noteq> Some []
                             \<and> correctOptionIndexOriginal st \<noteq> None);
                   shuffled =
                     (if pinned then
                        (let c = the (correctOptionIndexOriginal st);
                             correctNode = nodes ! c;
                             distractors = map (\<lambda>i. nodes ! i) (filter (\<lambda>i. i \<noteq> c) ois);
                             t0 = (case targetMap (the targetLabel) of None \<Rightarrow> 0 | Some k \<Rightarrow> k);
                             targetIndex = (if t0 \<ge> length optionNodes
                                            then t0 mod length optionNodes else t0)
                         in case shuffleArray distractors g of
                              (shuffledDistractors, g') \<Rightarrow>
                                (pinLoop [0 ..< length optionNodes] targetIndex correctNode
                                   shuffledDistractors, g'))
                      else shuffleArray optionNodes g)
               in case relabelAll type (detectedSeparator st) (fst shuffled) 0 of
                    Inl e \<Rightarrow> Inl e
                  | Inr relabelled \<Rightarrow> Inr (putBack ois relabelled nodes, snd shuffled))))"

section \<open>Applying a fix\<close>








section \<open>Patterns with Vietnamese words\<close>

text \<open>
  The patterns below carry the flag \<open>i\<close>.  A glyph is one letter of a pattern, given by
  its upper-case and lower-case forms; a word is a list of glyphs.
\<close>

type_synonym glyph = "jsstring list"

definition ci :: "int \<Rightarrow> glyph" where
  "ci c = [[toUpperChar c], [toLowerChar c]]"

fun matchGlyph :: "glyph \<Rightarrow> jsstring \<Rightarrow> jsstring option" where
  "matchGlyph [] s = None"
| "matchGlyph (v # vs) s = (if prefix v s then Some (drop (length v) s) else matchGlyph vs s)"

fun matchWord :: "glyph list \<Rightarrow> jsstring \<Rightarrow> jsstring option" where
  "matchWord [] s = Some s"
| "matchWord (gl # gls) s =
     (case matchGlyph gl s of None \<Rightarrow> None | Some r \<Rightarrow> matchWord gls r)"

definition wordCau :: "glyph list" where
  "wordCau = [ci (of_char CHR ''C''), [[0xC2], [0xE2]], ci (of_char CHR ''u'')]"

definition wordBai :: "glyph list" where
  "wordBai = [ci (of_char CHR ''B''), [[0xC0], [0xE0]], ci (of_char CHR ''i'')]"

definition wordCauHoi :: "glyph list" where
  "wordCauHoi =
     wordCau @ [[(js '' '')]]
     @ [ci (of_char CHR ''h''), [[0x1ECE], [0x1ECF]], ci (of_char CHR ''i'')]"

definition wordPhan :: "glyph list" where
  "wordPhan =
     [ci (of_char CHR ''P''), ci (of_char CHR ''H''), [[0x1EA6], [0x1EA7]],
      ci (of_char CHR ''N'')]"

definition wordTu :: "glyph list" where
  "wordTu = [ci (of_char CHR ''T''), [[0x1EF0], [0x1EF1]]]"

definition wordLuan :: "glyph list" where
  "wordLuan =
     [ci (of_char CHR ''L''), ci (of_char CHR ''U''), [[0x1EAC], [0x1EAD]],
      ci (of_char CHR ''N'')]"

text \<open>A pattern without \<open>^\<close> is tried at every position of the text.\<close>

fun anywhere :: "(jsstring \<Rightarrow> bool) \<Rightarrow> jsstring \<Rightarrow> bool" where
  "anywhere P [] = P []"
| "anywhere P (c # cs) = (P (c # cs) \<or> anywhere P cs)"

text \<open>
  \<open>QUESTION_START_REGEX = /^(\s*(?:Cau|Bai|Cau hoi)\s*\d+)([\s\.:]+)?/i\<close> (the words
  with their Vietnamese letters).  \<open>afterNumber\<close> tries the three words in the order of
  the alternation and returns the text after the digits; the match is returned as its
  groups 1 and 2, group 2 empty when it takes no part.
\<close>

fun afterNumber :: "glyph list list \<Rightarrow> jsstring \<Rightarrow> jsstring option" where
  "afterNumber [] s = None"
| "afterNumber (w # ws) s =
     (case matchWord w s of
        None \<Rightarrow> afterNumber ws s
      | Some r \<Rightarrow>
          (case dropWhile isSpace r of
             [] \<Rightarrow> afterNumber ws s
           | d # r' \<Rightarrow> if isDigit d then Some (dropWhile isDigit r') else afterNumber ws s))"

definition QUESTION_START_REGEX :: "jsstring \<Rightarrow> (jsstring \<times> jsstring) option" where
  "QUESTION_START_REGEX text =
     (case afterNumber [wordCau, wordBai, wordCauHoi] (dropWhile isSpace text) of
        None \<Rightarrow> None
      | Some rest \<Rightarrow>
          Some (take (length text - length rest) text,
                takeWhile (\<lambda>c. isSpace c \<or> c = (of_char CHR ''.'') \<or> c = (of_char CHR '':'')) rest))"

definition isQuestionStart :: "jsstring \<Rightarrow> bool" where
  "isQuestionStart text = test QUESTION_START_REGEX (dropWhile isSpace text)"

text \<open>\<open>/^PHAN\s+[IVX]+\./i\<close>, \<open>/TU\s+LUAN/i\<close> and \<open>/PHAN\s+(IV|4)/i\<close>, at one position.\<close>

definition isRoman :: "int \<Rightarrow> bool" where
  "isRoman c \<longleftrightarrow> c \<in> set (js ''IVXivx'')"

definition partHeaderAt :: "jsstring \<Rightarrow> bool" where
  "partHeaderAt s =
     (case matchWord wordPhan s of
        None \<Rightarrow> False
      | Some r \<Rightarrow>
          takeWhile isSpace r \<noteq> []
          \<and> takeWhile isRoman (dropWhile isSpace r) \<noteq> []
          \<and> (case dropWhile isRoman (dropWhile isSpace r) of
                [] \<Rightarrow> False | c # _ \<Rightarrow> c = (of_char CHR ''.'')))"

definition essayWordsAt :: "jsstring \<Rightarrow> bool" where
  "essayWordsAt s =
     (case matchWord wordTu s of
        None \<Rightarrow> False
      | Some r \<Rightarrow> takeWhile isSpace r \<noteq> [] \<and> matchWord wordLuan (dropWhile isSpace r) \<noteq> None)"

definition partFourAt :: "jsstring \<Rightarrow> bool" where
  "partFourAt s =
     (case matchWord wordPhan s of
        None \<Rightarrow> False
      | Some r \<Rightarrow>
          takeWhile isSpace r \<noteq> []
          \<and> (matchWord [ci (of_char CHR ''I''), ci (of_char CHR ''V'')] (dropWhile isSpace r) \<noteq> None
               \<or> prefix (js ''4'') (dropWhile isSpace r)))"

definition isSectionHeader :: "jsstring \<Rightarrow> bool" where
  "isSectionHeader text \<longleftrightarrow> partHeaderAt (trim text) \<or> anywhere essayWordsAt (trim text)"

definition isEssaySectionLabel :: "jsstring \<Rightarrow> bool" where
  "isEssaySectionLabel text \<longleftrightarrow> anywhere partFourAt text \<or> anywhere essayWordsAt text"

text \<open>
  The label of a question: group 1 trimmed, with a leading \<open>Bai\<close> or \<open>Cau hoi\<close> and the
  white space after it replaced by \<open>Cau\<close> and one space; \<open>Cau ?\<close> without a match.
\<close>

definition labelCau :: jsstring where
  "labelCau = (js ''C'') @ [0xE2] @ (js ''u '')"

definition questionLabel :: "jsstring \<Rightarrow> jsstring" where
  "questionLabel text =
     (case QUESTION_START_REGEX text of
        None \<Rightarrow> labelCau @ (js ''?'')
      | Some (g1, g2) \<Rightarrow>
          (case matchWord wordBai (trim g1) of
             Some r \<Rightarrow> labelCau @ dropWhile isSpace r
           | None \<Rightarrow>
               (case matchWord wordCauHoi (trim g1) of
                  Some r \<Rightarrow> labelCau @ dropWhile isSpace r
                | None \<Rightarrow> trim g1)))"

section \<open>Reading the document\<close>

datatype SegmentType = SegStatic | SegQuestion

record DocSegment =
  typeS :: SegmentType
  xmlContentS :: "xml list"
  textContentS :: jsstring
  questionData :: "QuestionBlock option"

text \<open>
  The processed document.  The package and the main part are kept as the trees they parse
  to; \<open>file\<close> and \<open>zip\<close> are the inputs themselves.
\<close>

record ProcessedDoc =
  questions :: "QuestionBlock list"
  segments :: "DocSegment list"
  originalXml :: xml
  finalSectPr :: "xml option"

record segmenter =
  segmentsS :: "DocSegment list"
  questionsS :: "QuestionBlock list"
  currentSegment :: "DocSegment option"
  accumulatedNodes :: "xml list"
  currentSectionLabel :: jsstring

text \<open>
  The question block that \<open>finishCurrentSegment\<close> builds from the text of the segment,
  its nodes and the current section label; \<open>uuid\<close> is \<open>crypto.randomUUID()\<close>.
\<close>

definition buildQuestion :: "jsstring \<Rightarrow> nat \<Rightarrow> jsstring \<Rightarrow> xml list \<Rightarrow> jsstring \<Rightarrow> QuestionBlock" where
  "buildQuestion uuid index text nodes sectionLabel =
     (let hasKey = test KEY_REGEX_EXTRACT text;
          t0 = detectType text;
          qType = (if isEssaySectionLabel sectionLabel \<and> t0 = UNKNOWN then ESSAY else t0);
          paragraphs = filter (\<lambda>node. isElement node \<and> nodeName node = ''w:p'') nodes;
          hasU = list_ex hasUnderline paragraphs;
          optionNodeCount =
            length (filter (\<lambda>node. (qType = MCQ \<or> qType = TRUE_FALSE) \<and> textContent node \<noteq> []
                                      \<and> test OPTION_PREFIX_REGEX (textContent node)) paragraphs);
          v1 = (if qType = MCQ \<and> \<not> hasU then False else True);
          v2 = (if qType = TRUE_FALSE \<and> \<not> hasU then False else v1);
          v3 = (if qType = SHORT_ANSWER \<and> \<not> hasKey then False else v2);
          v4 = (if qType = ESSAY then True else v3);
          v5 = (if qType = UNKNOWN then False else v4)
      in \<lparr> qid = uuid, originalIndex = index, label = questionLabel text,
           sectionQ = sectionLabel, qtype = qType, xmlContent = nodes, textContentQ = text,
           isValid = v5, hasUnderlineQ = hasU, hasKeyTag = hasKey,
           detectedOptionNodes = Some optionNodeCount \<rparr>)"

definition finishCurrentSegment :: "(nat \<Rightarrow> jsstring) \<Rightarrow> segmenter \<Rightarrow> segmenter" where
  "finishCurrentSegment uuid st =
     (case currentSegment st of
        None \<Rightarrow> st
      | Some seg \<Rightarrow>
          (let seg1 = seg\<lparr> xmlContentS := accumulatedNodes st \<rparr>
           in if typeS seg1 = SegQuestion then
                (let qBlock = buildQuestion (uuid (length (questionsS st))) (length (questionsS st))
                                (textContentS seg1) (accumulatedNodes st) (currentSectionLabel st)
                 in st\<lparr> questionsS := questionsS st @ [qBlock],
                        segmentsS := segmentsS st @ [seg1\<lparr> questionData := Some qBlock \<rparr>],
                        accumulatedNodes := [], currentSegment := None \<rparr>)
              else st\<lparr> segmentsS := segmentsS st @ [seg1], accumulatedNodes := [],
                       currentSegment := None \<rparr>))"

text \<open>The body of the loop over the children of the body element.\<close>

definition segmentNode :: "(nat \<Rightarrow> jsstring) \<Rightarrow> segmenter \<Rightarrow> xml \<Rightarrow> segmenter" where
  "segmentNode uuid st node =
     (let text = textContent node
      in if isElement node \<and> nodeName node = ''w:p'' \<and> isSectionHeader text then
           (let st1 = finishCurrentSegment uuid st
            in st1\<lparr> currentSectionLabel := trim text,
                    currentSegment := Some \<lparr> typeS = SegStatic, xmlContentS = [],
                                             textContentS = text, questionData = None \<rparr>,
                    accumulatedNodes := accumulatedNodes st1 @ [node] \<rparr>)
         else if isElement node \<and> nodeName node = ''w:p'' \<and> isQuestionStart text then
           (let st1 = finishCurrentSegment uuid st
            in st1\<lparr> currentSegment := Some \<lparr> typeS = SegQuestion, xmlContentS = [],
                                             textContentS = text, questionData = None \<rparr>,
                    accumulatedNodes := accumulatedNodes st1 @ [node] \<rparr>)
         else
           (let seg = (case currentSegment st of
                         None \<Rightarrow> \<lparr> typeS = SegStatic, xmlContentS = [], textContentS = [],
                                   questionData = None \<rparr>
                       | Some s \<Rightarrow> s)
            in st\<lparr> accumulatedNodes := accumulatedNodes st @ [node],
                   currentSegment :=
                     Some (seg\<lparr> textContentS :=
                                   textContentS seg
                                   @ (if textContentS seg \<noteq> [] then [0x0A] else [])
                                   @ text \<rparr>) \<rparr>))"

text \<open>
  The last child of the body that is a \<open>w:sectPr\<close> element is taken out and kept aside.
\<close>

fun takeOutFirst :: "('a \<Rightarrow> bool) \<Rightarrow> 'a list \<Rightarrow> 'a option \<times> 'a list" where
  "takeOutFirst P [] = (None, [])"
| "takeOutFirst P (x # xs) =
     (if P x then (Some x, xs)
      else (case takeOutFirst P xs of (r, ys) \<Rightarrow> (r, x # ys)))"

definition extractSectPr :: "xml list \<Rightarrow> xml option \<times> xml list" where
  "extractSectPr children =
     (case takeOutFirst (\<lambda>node. isElement node \<and> nodeName node = ''w:sectPr'') (rev children) of
        (r, ys) \<Rightarrow> (r, rev ys))"

definition msgNoDocument :: jsstring where
  "msgNoDocument = (js ''Kh'') @ [0xF4] @ (js ''ng t'') @ [0xEC] @ (js ''m th'') @ [0x1EA5] @ (js ''y word/document.xml. File docx kh'') @ [0xF4] @ (js ''ng h'') @ [0x1EE3] @ (js ''p l'') @ [0x1EC7] @ (js ''.'')"

definition msgNoBody :: jsstring where
  "msgNoBody = (js ''C'') @ [0x1EA5] @ (js ''u tr'') @ [0xFA] @ (js ''c file l'') @ [0x1ED7] @ (js ''i (thi'') @ [0x1EBF] @ (js ''u w:body).'')"

text \<open>
  \<open>processDocxFile\<close>.  The package is the map from the paths of its parts to their
  parsed roots; \<open>getElementsByTagName\<close> on the document reaches the root and its
  descendants.
\<close>

definition processDocxFile :: "(nat \<Rightarrow> jsstring) \<Rightarrow> (string \<rightharpoonup> xml) \<Rightarrow> error + ProcessedDoc" where
  "processDocxFile uuid package =
     (case package ''word/document.xml'' of
        None \<Rightarrow> Inl (Error msgNoDocument)
      | Some xmlDoc \<Rightarrow>
          (case filter (\<lambda>d. isElement d \<and> nodeName d = ''w:body'') (xmlDoc # descendants xmlDoc) of
             [] \<Rightarrow> Inl (Error msgNoBody)
           | body # _ \<Rightarrow>
               (case extractSectPr (childNodes body) of
                  (sectPr, children) \<Rightarrow>
                    (let st = finishCurrentSegment uuid
                                (foldl (segmentNode uuid)
                                   \<lparr> segmentsS = [], questionsS = [], currentSegment = None,
                                     accumulatedNodes = [], currentSectionLabel = [] \<rparr>
                                   children)
                     in Inr \<lparr> questions = questionsS st, segments = segmentsS st, originalXml = xmlDoc,
                              finalSectPr = sectPr \<rparr>))))"

section \<open>Variants and the answer table\<close>

text \<open>
  The start code and the counter of the loop are numbers of JavaScript, that is doubles.
  The model keeps the numbers that are integers as integers.  \<open>roundDouble\<close> is the
  double nearest to an integer, ties going to the even significand; every integer of
  magnitude up to \<open>2^53\<close> is a double.  A sum or a difference of the source is the
  exact one, rounded.  The overflow to infinity beyond \<open>2^1024\<close> is left out.
\<close>

function bitLength :: "int \<Rightarrow> nat" where
  "bitLength n = (if n \<le> 0 then 0 else Suc (bitLength (n div 2)))"
  by pat_completeness auto
termination
  by (relation "measure nat") auto

declare bitLength.simps [simp del]

definition roundDouble :: "int \<Rightarrow> int" where
  "roundDouble n =
     (if \<bar>n\<bar> \<le> 2 ^ 53 then n
      else (let e = bitLength \<bar>n\<bar> - 53;
                q = \<bar>n\<bar> div 2 ^ e;
                r = \<bar>n\<bar> mod 2 ^ e;
                q' = (if 2 * r > 2 ^ e \<or> (2 * r = 2 ^ e \<and> odd q) then q + 1 else q)
            in sgn n * (q' * 2 ^ e)))"

definition jsPlus :: "int \<Rightarrow> int \<Rightarrow> int" where
  "jsPlus a b = roundDouble (a + b)"

definition jsMinus :: "int \<Rightarrow> int \<Rightarrow> int" where
  "jsMinus a b = roundDouble (a - b)"

text \<open>
  Variant codes are the decimal renderings of integers, as \<open>toString\<close> gives them for
  the integers of magnitude below \<open>2^53\<close>, and \<open>Number\<close> reads them back.
\<close>

function digitsOf :: "int \<Rightarrow> jsstring" where
  "digitsOf n =
     (if n < 10 then [(of_char CHR ''0'') + n]
      else digitsOf (n div 10) @ [(of_char CHR ''0'') + n mod 10])"
  by pat_completeness auto
termination
  by (relation "measure nat") auto

declare digitsOf.simps [simp del]

definition toString :: "int \<Rightarrow> jsstring" where
  "toString i = (if i < 0 then (of_char CHR ''-'') # digitsOf (- i) else digitsOf i)"

definition digitValue :: "int \<Rightarrow> int" where
  "digitValue c = c - (of_char CHR ''0'')"

definition numberOfDigits :: "jsstring \<Rightarrow> int" where
  "numberOfDigits s = foldl (\<lambda>acc c. acc * 10 + digitValue c) 0 s"

definition Number :: "jsstring \<Rightarrow> int" where
  "Number s =
     (case s of
        [] \<Rightarrow> 0
      | c # r \<Rightarrow> if c = (of_char CHR ''-'') then - numberOfDigits r else numberOfDigits s)"

record VariantAnswers =
  code :: jsstring
  answers :: "nat \<rightharpoonup> jsstring"

record ExcelRow =
  STT :: nat
  cells :: "jsstring \<rightharpoonup> jsstring"

record AnswerTable =
  header :: "jsstring list"
  excelRows :: "ExcelRow list"

text \<open>
  The loop over the variants.  What one iteration does between computing the code and
  recording the answers (assembling, shuffling and sealing the document) is the parameter
  \<open>assemble\<close>: from the code and the state of the run it yields the answers recorded
  by the variant and the next state, or the exception it throws.  The loop has no handler:
  an exception ends the whole call and nothing is produced.
\<close>

definition variantCodeOf :: "int \<Rightarrow> nat \<Rightarrow> jsstring" where
  "variantCodeOf startCode i = toString (jsMinus (jsPlus startCode (int i)) 1)"

fun variantLoop ::
  "(jsstring \<Rightarrow> 's \<Rightarrow> error + ((nat \<rightharpoonup> jsstring) \<times> 's)) \<Rightarrow> int \<Rightarrow> nat list
     \<Rightarrow> VariantAnswers list \<Rightarrow> 's \<Rightarrow> error + (VariantAnswers list \<times> 's)" where
  "variantLoop assemble startCode [] allVariantAnswers s = Inr (allVariantAnswers, s)"
| "variantLoop assemble startCode (i # is) allVariantAnswers s =
     (let variantCode = variantCodeOf startCode i
      in case assemble variantCode s of
           Inl e \<Rightarrow> Inl e
         | Inr (variantAnswers, s') \<Rightarrow>
             variantLoop assemble startCode is
               (allVariantAnswers @ [\<lparr> code = variantCode, answers = variantAnswers \<rparr>]) s')"

definition excelRow :: "VariantAnswers list \<Rightarrow> jsstring list \<Rightarrow> nat \<Rightarrow> ExcelRow" where
  "excelRow allVariantAnswers variantCodes qIdx =
     \<lparr> STT = qIdx,
       cells = foldl (\<lambda>row c.
                  (case find (\<lambda>v. code v = c) allVariantAnswers of
                     None \<Rightarrow> row
                   | Some variant \<Rightarrow>
                       row(c \<mapsto> (case answers variant qIdx of None \<Rightarrow> [] | Some a \<Rightarrow> a))))
                Map.empty variantCodes \<rparr>"

definition answerTable :: "VariantAnswers list \<Rightarrow> nat \<Rightarrow> AnswerTable" where
  "answerTable allVariantAnswers totalQuestions =
     (let variantCodes = sort_key Number (map code allVariantAnswers)
      in \<lparr> header = (js ''STT'') # variantCodes,
           excelRows = map (excelRow allVariantAnswers variantCodes) [1 ..< totalQuestions + 1] \<rparr>)"

definition generateVariants ::
  "(jsstring \<Rightarrow> 's \<Rightarrow> error + ((nat \<rightharpoonup> jsstring) \<times> 's)) \<Rightarrow> ProcessedDoc \<Rightarrow> nat \<Rightarrow> int
     \<Rightarrow> 's \<Rightarrow> error + (VariantAnswers list \<times> AnswerTable)" where
  "generateVariants assemble docData variantCount startCode s =
     (case variantLoop assemble startCode [1 ..< variantCount + 1] [] s of
        Inl e \<Rightarrow> Inl e
      | Inr (allVariantAnswers, s') \<Rightarrow>
          Inr (allVariantAnswers, answerTable allVariantAnswers (length (questions docData))))"



text \<open>
  A package whose main part has no body, and one whose body is a single question with its
  three options typed inside the paragraph of the stem, the second underlined.
\<close>

definition packageWithoutBody :: "string \<rightharpoonup> xml" where
  "packageWithoutBody = [''word/document.xml'' \<mapsto> Elem ''w:document'' [] []]"

definition inlineStem :: jsstring where
  "inlineStem = (js ''C'') @ [0xE2] @ (js ''u 1: 1 + 1 = ? A. 1  '')"

definition inlinePackage :: "string \<rightharpoonup> xml" where
  "inlinePackage =
     [''word/document.xml'' \<mapsto>
        Elem ''w:document'' []
          [Elem ''w:body'' []
             [par [run False inlineStem, run True (js ''B. 2''), run False (js ''  C. 3'')]]]]"





section \<open>Option nodes, their content and their shape\<close>

text \<open>
  The option nodes of a question are the nodes the shuffle collects: the text matches the
  option pattern or the loose pattern.  \<open>optionPositions\<close> lists their indices.
\<close>

definition isOptionNode :: "xml \<Rightarrow> bool" where
  "isOptionNode node \<longleftrightarrow>
     test OPTION_PREFIX_REGEX (textContent node) \<or> test looseRegex (textContent node)"

definition optionPositions :: "xml list \<Rightarrow> nat list" where
  "optionPositions nodes = filter (\<lambda>i. isOptionNode (nodes ! i)) [0 ..< length nodes]"

text \<open>
  The content of an option ignoring its label prefix: the text after leading white space,
  the letters of the label, white space, and one separator if there is one.
\<close>

definition isLetter :: "int \<Rightarrow> bool" where
  "isLetter c \<longleftrightarrow>
     c \<in> set (js ''ABCDEFGHIJKLMNOPQRSTUVWXYZ'') \<or> c \<in> set (js ''abcdefghijklmnopqrstuvwxyz'')"

definition contentIgnoringLabel :: "jsstring \<Rightarrow> jsstring" where
  "contentIgnoringLabel text =
     (case dropWhile isSpace (dropWhile isLetter (dropWhile isSpace text)) of
        [] \<Rightarrow> []
      | c # r \<Rightarrow> if isSeparator c then r else c # r)"

definition optionContent :: "xml \<Rightarrow> jsstring" where
  "optionContent node = contentIgnoringLabel (textContent node)"

text \<open>
  The pieces of text of a node in document order: the whole text of each \<open>w:t\<close> element,
  marked \<open>True\<close>, and each text node outside the \<open>w:t\<close> elements, marked
  \<open>False\<close>.  \<open>labelInText\<close>: the first piece that is not blank belongs to a
  \<open>w:t\<close> element.
\<close>

fun chunks :: "xml \<Rightarrow> (bool \<times> jsstring) list" where
  "chunks (Txt s) = [(False, s)]"
| "chunks (Elem n as cs) =
     (if n = ''w:t'' then [(True, concat (map textContent cs))] else concat (map chunks cs))"

definition blank :: "jsstring \<Rightarrow> bool" where
  "blank s \<longleftrightarrow> dropWhile isSpace s = []"

definition labelInText :: "xml \<Rightarrow> bool" where
  "labelInText node =
     (case dropWhile (\<lambda>p. blank (snd p)) (chunks node) of [] \<Rightarrow> True | p # _ \<Rightarrow> fst p)"

text \<open>
  Three properties that every tree of a word-processing document has: the children of a
  properties element \<open>w:rPr\<close> are elements without children (\<open>propsPlain\<close>); a
  \<open>w:t\<close> element has text nodes only (\<open>textLeaves\<close>); no run lies inside a run
  (\<open>runsFlat\<close>).
\<close>

definition childless :: "xml \<Rightarrow> bool" where
  "childless c \<longleftrightarrow> isElement c \<and> childNodes c = []"

definition elementsIn :: "xml list \<Rightarrow> string \<Rightarrow> xml list" where
  "elementsIn xs nm =
     filter (\<lambda>d. isElement d \<and> nodeName d = nm) (concat (map (\<lambda>c. c # descendants c) xs))"

definition runsIn :: "xml list \<Rightarrow> xml list" where
  "runsIn xs = filter (\<lambda>d. isElement d \<and> nodeName d = ''w:r'') (concat (map (\<lambda>c. c # descendants c) xs))"

fun propsPlain :: "xml \<Rightarrow> bool" where
  "propsPlain (Txt s) = True"
| "propsPlain (Elem n as cs) =
     ((if n = ''w:rPr'' then list_all childless cs else True)
      \<and> list_all propsPlain cs)"

fun textLeaves :: "xml \<Rightarrow> bool" where
  "textLeaves (Txt s) = True"
| "textLeaves (Elem n as cs) =
     ((if n = ''w:t'' then list_all (\<lambda>c. \<not> isElement c) cs else True)
      \<and> list_all textLeaves cs)"

fun runsFlat :: "xml \<Rightarrow> bool" where
  "runsFlat (Txt s) = True"
| "runsFlat (Elem n as cs) =
     ((if n = ''w:r'' then runsIn cs = [] else True) \<and> list_all runsFlat cs)"

text \<open>
  The tree without its text nodes: what \<open>getElementsByTagName\<close> and the attributes can
  see of it.
\<close>

fun skeleton :: "xml \<Rightarrow> xml" where
  "skeleton (Txt s) = Txt []"
| "skeleton (Elem n as cs) = Elem n as (map skeleton (filter isElement cs))"

text \<open>
  Sample nodes: an option whose label and formula are typed in the equation editor
  (\<open>m:t\<close>), followed by the plain text \<open>b\<close>; a question with one option node.
\<close>

definition mathOption :: xml where
  "mathOption =
     par [Elem ''m:oMath'' [] [Elem ''m:r'' [] [Elem ''m:t'' [] [Txt (js ''A. x = '')]]],
          run False (js ''b'')]"

definition mathQuestion :: "xml list" where
  "mathQuestion = [par [run False scenarioStem], mathOption, par [run False (js ''B. x = 2'')]]"

definition oneOptionQuestion :: "xml list" where
  "oneOptionQuestion = [par [run False scenarioStem], par [run True (js ''B. 2'')]]"

text \<open>A question with three options, the second one underlined.\<close>

definition threeOptionQuestion :: "xml list" where
  "threeOptionQuestion =
     [par [run False scenarioStem], par [run False (js ''A. 1'')], par [run True (js ''B. 2'')],
      par [run False (js ''C. 3'')]]"

text \<open>A supply of random values in which every draw is 0.\<close>

definition zeroRng :: rng where
  "zeroRng k = 0"

text \<open>
  What \<open>replaceOptionLabel\<close> does, seen on the pieces of text: the first \<open>w:t\<close> piece
  that is not empty and that one of the two patterns matches gets its new text.
\<close>

fun relabelChunks :: "(bool \<times> jsstring) list \<Rightarrow> jsstring \<Rightarrow> jsstring \<Rightarrow> (bool \<times> jsstring) list option" where
  "relabelChunks [] newLabel separator = None"
| "relabelChunks (p # ps) newLabel separator =
     (if fst p \<and> snd p \<noteq> [] \<and> relabelledText (snd p) newLabel separator \<noteq> None
      then Some ((True, the (relabelledText (snd p) newLabel separator)) # ps)
      else (case relabelChunks ps newLabel separator of
              None \<Rightarrow> None
            | Some ps' \<Rightarrow> Some (p # ps')))"

section \<open>Balanced keys\<close>

text \<open>Fisher-Yates only swaps entries, so the result has the entries of the input.\<close>
lemma mset_shuffleLoop: "i < length xs \<Longrightarrow> mset (fst (shuffleLoop i xs g)) = mset xs"
proof (induction i arbitrary: xs g)
  case 0
  then show ?case by simp
next
  case (Suc i)
  obtain j g' where r: "randomBelow (Suc i + 1) g = (j, g')" by (cases "randomBelow (Suc i + 1) g")
  then have j: "j < Suc i + 1" by (auto simp: randomBelow_def)
  let ?ys = "xs[Suc i := xs ! j, j := xs ! Suc i]"
  have "mset ?ys = mset xs" using Suc.prems j by (simp add: mset_swap)
  moreover have "i < length ?ys" using Suc.prems by simp
  ultimately show ?case using Suc.IH[of ?ys g'] r by simp
qed

lemma mset_shuffleArray: "mset (fst (shuffleArray xs g)) = mset xs"
proof (cases xs)
  case Nil
  then show ?thesis by (simp add: shuffleArray_def)
next
  case (Cons a list)
  then show ?thesis by (simp add: shuffleArray_def mset_shuffleLoop)
qed

lemma balanced_base:
  "concat (map (\<lambda>i. replicate b ([(js ''A''), (js ''B''), (js ''C''), (js ''D'')] ! i)) [0 ..< 4])
     = replicate b (js ''A'') @ replicate b (js ''B'') @ replicate b (js ''C'') @ replicate b (js ''D'')"
proof -
  have "[0 ..< 4] = [0, 1, 2, 3::nat]" by (simp add: upt_rec)
  then show ?thesis by simp
qed

lemma generateBalancedKeys_mset:
  "\<exists>extras. distinct extras \<and> length extras = n mod 4 \<and> set extras \<subseteq> set labelsABCD
     \<and> mset (fst (generateBalancedKeys n g))
         = mset (replicate (n div 4) (js ''A'') @ replicate (n div 4) (js ''B'')
                   @ replicate (n div 4) (js ''C'') @ replicate (n div 4) (js ''D'')) + mset extras"
proof (cases "n mod 4 > 0")
  case False
  then have "fst (generateBalancedKeys n g)
      = fst (shuffleArray (replicate (n div 4) (js ''A'') @ replicate (n div 4) (js ''B'')
                   @ replicate (n div 4) (js ''C'') @ replicate (n div 4) (js ''D'')) g)"
    unfolding generateBalancedKeys_def Let_def balanced_base by simp
  then show ?thesis using False
    by (intro exI[of _ "[]"]) (simp add: mset_shuffleArray)
next
  case True
  obtain sh g' where sh: "shuffleArray [(js ''A''), (js ''B''), (js ''C''), (js ''D'')] g = (sh, g')"
    by (cases "shuffleArray [(js ''A''), (js ''B''), (js ''C''), (js ''D'')] g")
  have m: "mset sh = mset [(js ''A''), (js ''B''), (js ''C''), (js ''D'')]"
    using mset_shuffleArray[of "[(js ''A''), (js ''B''), (js ''C''), (js ''D'')]" g] sh by simp
  have d: "distinct sh"
    using mset_eq_imp_distinct_iff[OF m] by simp
  have l: "length sh = 4"
    using mset_eq_length[OF m] by simp
  have s: "set sh = set labelsABCD"
    using mset_eq_setD[OF m] by (simp add: labelsABCD_def)
  have "fst (generateBalancedKeys n g)
      = fst (shuffleArray ((replicate (n div 4) (js ''A'') @ replicate (n div 4) (js ''B'')
                   @ replicate (n div 4) (js ''C'') @ replicate (n div 4) (js ''D'')) @ take (n mod 4) sh) g')"
    using True sh unfolding generateBalancedKeys_def Let_def balanced_base by simp
  then have "mset (fst (generateBalancedKeys n g))
      = mset (replicate (n div 4) (js ''A'') @ replicate (n div 4) (js ''B'')
                   @ replicate (n div 4) (js ''C'') @ replicate (n div 4) (js ''D'')) + mset (take (n mod 4) sh)"
    by (simp add: mset_shuffleArray)
  moreover have "distinct (take (n mod 4) sh)" using d by simp
  moreover have "length (take (n mod 4) sh) = n mod 4" using l by simp
  moreover have "set (take (n mod 4) sh) \<subseteq> set labelsABCD"
    using s set_take_subset[of "n mod 4" sh] by simp
  ultimately show ?thesis by blast
qed

text \<open>
  C4.  For every \<open>n\<close> and every run of the random choices, \<open>generateBalancedKeys n\<close>
  returns exactly \<open>n\<close> letters, all among A, B, C, D; each letter occurs
  \<open>n div 4\<close> times plus once more when it belongs to a set of \<open>n mod 4\<close> pairwise
  distinct extra letters; hence four times a letter's count lies within 4 of \<open>n\<close>, that
  is, the count differs from \<open>n/4\<close> by at most 1.
\<close>

theorem generateBalancedKeys_balanced:
  "length (fst (generateBalancedKeys n g)) = n
   \<and> set (fst (generateBalancedKeys n g)) \<subseteq> set labelsABCD
   \<and> (\<exists>extras. distinct extras \<and> length extras = n mod 4 \<and> set extras \<subseteq> set labelsABCD
        \<and> (\<forall>l \<in> set labelsABCD.
              count_list (fst (generateBalancedKeys n g)) l
                = n div 4 + (if l \<in> set extras then 1 else 0)))
   \<and> (\<forall>l \<in> set labelsABCD.
         4 * count_list (fst (generateBalancedKeys n g)) l \<le> n + 4
         \<and> n \<le> 4 * count_list (fst (generateBalancedKeys n g)) l + 4)"
proof -
  let ?keys = "fst (generateBalancedKeys n g)"
  let ?base = "replicate (n div 4) (js ''A'') @ replicate (n div 4) (js ''B'')
                   @ replicate (n div 4) (js ''C'') @ replicate (n div 4) (js ''D'')"
  obtain extras where ex: "distinct extras" "length extras = n mod 4"
      "set extras \<subseteq> set labelsABCD" "mset ?keys = mset ?base + mset extras"
    using generateBalancedKeys_mset[of n g] by blast
  have len: "length ?keys = n"
  proof -
    have "size (mset ?keys) = size (mset ?base) + size (mset extras)" using ex(4) by simp
    then have "length ?keys = n div 4 + (n div 4 + (n div 4 + n div 4)) + n mod 4"
      using ex(2) by simp
    moreover have "n div 4 + (n div 4 + (n div 4 + n div 4)) + n mod 4 = n" by presburger
    ultimately show ?thesis by simp
  qed
  have sub: "set ?keys \<subseteq> set labelsABCD"
  proof -
    have "set ?keys = set_mset (mset ?base + mset extras)" using ex(4) by (metis set_mset_mset)
    then show ?thesis using ex(3) by (auto simp: labelsABCD_def)
  qed
  have cnt: "count_list ?keys l = n div 4 + (if l \<in> set extras then 1 else 0)"
    if "l \<in> set labelsABCD" for l
  proof -
    have "count_list ?keys l = count (mset ?base) l + count (mset extras) l"
      using ex(4) by (metis count_mset count_union)
    moreover have "count (mset extras) l = (if l \<in> set extras then 1 else 0)"
      using ex(1) distinct_count_atmost_1 by metis
    moreover have "count (mset ?base) l = n div 4"
      using that by (auto simp: labelsABCD_def)
    ultimately show ?thesis by simp
  qed
  have bound: "4 * count_list ?keys l \<le> n + 4 \<and> n \<le> 4 * count_list ?keys l + 4"
    if "l \<in> set labelsABCD" for l
    using cnt[OF that] by (simp split: if_splits) presburger+
  show ?thesis using len sub ex(1,2,3) cnt bound by blast
qed

text \<open>The theorem at \<open>n = 6\<close>, for the letter C, which is drawn as an extra there.\<close>

theorem generateBalancedKeys_balanced_witness:
  "fst (generateBalancedKeys 6 (\<lambda>k. 3 * k + 1)) = [(js ''C''), (js ''C''), (js ''B''), (js ''A''), (js ''D''), (js ''A'')]
   \<and> (js ''C'') \<in> set labelsABCD
   \<and> 4 * count_list (fst (generateBalancedKeys 6 (\<lambda>k. 3 * k + 1))) (js ''C'') \<le> 6 + 4
   \<and> 6 \<le> 4 * count_list (fst (generateBalancedKeys 6 (\<lambda>k. 3 * k + 1))) (js ''C'') + 4"
proof -
  have m: "(js ''C'') \<in> set labelsABCD" by (simp add: labelsABCD_def)
  have v: "fst (generateBalancedKeys 6 (\<lambda>k. 3 * k + 1)) = [(js ''C''), (js ''C''), (js ''B''), (js ''A''), (js ''D''), (js ''A'')]"
    by code_simp
  show ?thesis
    using generateBalancedKeys_balanced[of 6 "\<lambda>k. 3 * k + 1"] m v by simp
qed

section \<open>Validation issues\<close>

lemma issuesOf_fields:
  "i \<in> set (issuesOf k q) \<Longrightarrow>
     questionIndex i = k \<and> questionType i = qtype q
     \<and> (severity i = SevWarning \<longleftrightarrow> qtype q = TRUE_FALSE \<or> qtype q = ESSAY)"
  by (auto simp: issuesOf_def mkIssue_def split: if_splits)

lemma length_issuesOf: "length (issuesOf k q) = specFailedRules q"
  by (cases "qtype q") (auto simp: issuesOf_def specFailedRules_def trim_def jsLength_def)

lemma getValidationIssues_snoc:
  "getValidationIssues (qs @ [q]) = getValidationIssues qs @ issuesOf (length qs) q"
  by (simp add: getValidationIssues_def)

lemma getValidationIssues_index:
  "i \<in> set (getValidationIssues qs) \<Longrightarrow>
     questionIndex i < length qs \<and> i \<in> set (issuesOf (questionIndex i) (qs ! questionIndex i))"
proof (induction qs rule: rev_induct)
  case Nil
  then show ?case by (simp add: getValidationIssues_def)
next
  case (snoc q qs)
  from snoc.prems consider "i \<in> set (getValidationIssues qs)" | "i \<in> set (issuesOf (length qs) q)"
    by (auto simp: getValidationIssues_snoc)
  then show ?case
  proof cases
    case 1
    then show ?thesis using snoc.IH by (auto simp: nth_append)
  next
    case 2
    then have "questionIndex i = length qs" using issuesOf_fields by blast
    then show ?thesis using 2 by simp
  qed
qed

lemma getValidationIssues_filter:
  "k < length qs \<Longrightarrow>
     filter (\<lambda>i. questionIndex i = k) (getValidationIssues qs) = issuesOf k (qs ! k)"
proof (induction qs rule: rev_induct)
  case Nil
  then show ?case by simp
next
  case (snoc q qs)
  have own: "filter (\<lambda>i. questionIndex i = j) (issuesOf m q') = (if j = m then issuesOf m q' else [])"
    for j m q'
    using issuesOf_fields[of _ m q'] by (auto simp: filter_empty_conv filter_id_conv)
  show ?case
  proof (cases "k < length qs")
    case True
    then show ?thesis using snoc.IH by (simp add: getValidationIssues_snoc own nth_append)
  next
    case False
    then have k: "k = length qs" using snoc.prems by simp
    have "filter (\<lambda>i. questionIndex i = k) (getValidationIssues qs) = []"
      using getValidationIssues_index[of _ qs] k by (fastforce simp: filter_empty_conv)
    then show ?thesis using k by (simp add: getValidationIssues_snoc own)
  qed
qed

text \<open>
  C7, as amended.  For the question at any index, \<open>getValidationIssues\<close> emits exactly
  one issue per failing requirement of the validity table.  Every issue has severity
  \<open>warning\<close> exactly when its question is TRUE_FALSE (no underline) or ESSAY (text too
  short), and severity \<open>error\<close> exactly when it is MCQ, SHORT_ANSWER or UNKNOWN.
\<close>

theorem getValidationIssues_one_per_failing_rule:
  "k < length qs \<Longrightarrow>
     length (filter (\<lambda>i. questionIndex i = k) (getValidationIssues qs)) = specFailedRules (qs ! k)
     \<and> (\<forall>i \<in> set (getValidationIssues qs).
           questionIndex i < length qs
           \<and> questionType i = qtype (qs ! questionIndex i)
           \<and> (severity i = SevWarning \<longleftrightarrow> questionType i = TRUE_FALSE \<or> questionType i = ESSAY)
           \<and> (severity i = SevError \<longleftrightarrow>
                 questionType i = MCQ \<or> questionType i = SHORT_ANSWER \<or> questionType i = UNKNOWN))"
proof -
  assume k: "k < length qs"
  have a: "length (filter (\<lambda>i. questionIndex i = k) (getValidationIssues qs)) = specFailedRules (qs ! k)"
    using k by (simp add: getValidationIssues_filter length_issuesOf)
  have b: "questionIndex i < length qs
           \<and> questionType i = qtype (qs ! questionIndex i)
           \<and> (severity i = SevWarning \<longleftrightarrow> questionType i = TRUE_FALSE \<or> questionType i = ESSAY)
           \<and> (severity i = SevError \<longleftrightarrow>
                 questionType i = MCQ \<or> questionType i = SHORT_ANSWER \<or> questionType i = UNKNOWN)"
    if "i \<in> set (getValidationIssues qs)" for i
  proof -
    from getValidationIssues_index[OF that]
    have i: "questionIndex i < length qs" "i \<in> set (issuesOf (questionIndex i) (qs ! questionIndex i))"
      by simp_all
    from issuesOf_fields[OF i(2)]
    have f: "questionType i = qtype (qs ! questionIndex i)"
        "severity i = SevWarning \<longleftrightarrow> questionType i = TRUE_FALSE \<or> questionType i = ESSAY"
      by simp_all
    have "severity i = SevError \<longleftrightarrow> severity i \<noteq> SevWarning" by (cases "severity i") simp_all
    then have "severity i = SevError \<longleftrightarrow>
                 questionType i = MCQ \<or> questionType i = SHORT_ANSWER \<or> questionType i = UNKNOWN"
      using f(2) by (cases "questionType i") simp_all
    then show ?thesis using i(1) f by simp
  qed
  show ?thesis using a b by blast
qed

text \<open>
  C7 as stated fails: the essay question without text fails the ESSAY requirement, and the
  one issue emitted for it has severity \<open>warning\<close>, not \<open>error\<close>.
\<close>

theorem essay_rule_warning_counterexample:
  "qtype emptyEssay = ESSAY \<and> specFailedRules emptyEssay = 1
   \<and> map severity (getValidationIssues [emptyEssay]) = [SevWarning]
   \<and> SevWarning \<noteq> SevError"
  by (simp add: getValidationIssues_def issuesOf_def emptyEssay_def mkIssue_def
        specFailedRules_def trim_def jsLength_def)

text \<open>The amended statement at the list holding the empty essay question alone.\<close>

theorem getValidationIssues_one_per_failing_rule_witness:
  "(0::nat) < length [emptyEssay]
   \<and> length (filter (\<lambda>i. questionIndex i = 0) (getValidationIssues [emptyEssay])) = 1"
proof -
  have h: "(0::nat) < length [emptyEssay]" by simp
  have r: "specFailedRules ([emptyEssay] ! 0) = 1"
    by (simp add: specFailedRules_def emptyEssay_def trim_def jsLength_def)
  have "length (filter (\<lambda>i. questionIndex i = 0) (getValidationIssues [emptyEssay]))
          = specFailedRules ([emptyEssay] ! 0)"
    using getValidationIssues_one_per_failing_rule[OF h] by blast
  then show ?thesis using r by simp
qed

section \<open>Type detection\<close>

text \<open>
  \<open>afterMarker\<close> finds the leftmost marker of a letter: it succeeds exactly when the text
  holds the letter followed by a separator, and what it returns ends with whatever
  followed any such occurrence.
\<close>

lemma afterMarker_Some:
  "afterMarker L s = Some r \<Longrightarrow> \<exists>p a. s = p @ L # a # r \<and> isSeparator a"
proof (induction L s rule: afterMarker.induct)
  case (1 L c d r')
  show ?case
  proof (cases "c = L \<and> isSeparator d")
    case True
    then have "r = r'" using "1.prems" by simp
    then show ?thesis using True by (intro exI[of _ "[]"] exI[of _ d]) simp
  next
    case False
    then have "afterMarker L (d # r') = Some r" using "1.prems" by auto
    from "1.IH"[OF False this] obtain p a where "d # r' = p @ L # a # r" "isSeparator a" by blast
    then show ?thesis by (intro exI[of _ "c # p"] exI[of _ a]) simp
  qed
qed simp_all

lemma afterMarker_complete:
  "isSeparator a \<Longrightarrow> \<exists>r u. afterMarker L (p @ L # a # t) = Some r \<and> r = u @ t"
proof (induction p)
  case Nil
  then show ?case by simp
next
  case (Cons c p)
  then obtain r u where r: "afterMarker L (p @ L # a # t) = Some r" "r = u @ t" by blast
  obtain d q where dq: "p @ L # a # t = d # q" by (cases "p @ L # a # t") simp_all
  show ?case
  proof (cases "c = L \<and> isSeparator d")
    case True
    then have "afterMarker L ((c # p) @ L # a # t) = Some q" using dq by simp
    moreover have "\<exists>u. q = u @ t"
    proof (cases p)
      case Nil
      then show ?thesis using dq by (intro exI[of _ "[a]"]) simp
    next
      case (Cons e p')
      then show ?thesis using dq by (intro exI[of _ "p' @ [L, a]"]) simp
    qed
    ultimately show ?thesis by blast
  next
    case False
    then have "afterMarker L ((c # p) @ L # a # t) = afterMarker L (p @ L # a # t)"
      using dq by auto
    then show ?thesis using r by simp
  qed
qed

lemma inlineOptions_iff:
  "inlineOptions text \<longleftrightarrow>
     (\<exists>p a q b r c t. text = p @ (of_char CHR ''A'') # a # q @ (of_char CHR ''B'') # b # r @ (of_char CHR ''C'') # c # t
        \<and> isSeparator a \<and> isSeparator b \<and> isSeparator c)"
proof
  assume "inlineOptions text"
  then obtain r1 r2 r3 where r: "afterMarker (of_char CHR ''A'') text = Some r1"
      "afterMarker (of_char CHR ''B'') r1 = Some r2" "afterMarker (of_char CHR ''C'') r2 = Some r3"
    by (auto simp: inlineOptions_def split: option.splits)
  from afterMarker_Some[OF r(1)] obtain p a where 1: "text = p @ (of_char CHR ''A'') # a # r1" "isSeparator a"
    by blast
  from afterMarker_Some[OF r(2)] obtain q b where 2: "r1 = q @ (of_char CHR ''B'') # b # r2" "isSeparator b"
    by blast
  from afterMarker_Some[OF r(3)] obtain s c where 3: "r2 = s @ (of_char CHR ''C'') # c # r3" "isSeparator c"
    by blast
  show "\<exists>p a q b r c t. text = p @ (of_char CHR ''A'') # a # q @ (of_char CHR ''B'') # b # r @ (of_char CHR ''C'') # c # t
        \<and> isSeparator a \<and> isSeparator b \<and> isSeparator c"
    using 1 2 3 by blast
next
  assume "\<exists>p a q b r c t. text = p @ (of_char CHR ''A'') # a # q @ (of_char CHR ''B'') # b # r @ (of_char CHR ''C'') # c # t
        \<and> isSeparator a \<and> isSeparator b \<and> isSeparator c"
  then obtain p a q b r c t where
    t: "text = p @ (of_char CHR ''A'') # a # q @ (of_char CHR ''B'') # b # r @ (of_char CHR ''C'') # c # t"
    and s: "isSeparator a" "isSeparator b" "isSeparator c" by blast
  from afterMarker_complete[OF s(1), of "(of_char CHR ''A'')" p "q @ (of_char CHR ''B'') # b # r @ (of_char CHR ''C'') # c # t"]
  obtain r1 u1 where 1: "afterMarker (of_char CHR ''A'') text = Some r1"
      "r1 = u1 @ q @ (of_char CHR ''B'') # b # r @ (of_char CHR ''C'') # c # t"
    using t by auto
  from afterMarker_complete[OF s(2), of "(of_char CHR ''B'')" "u1 @ q" "r @ (of_char CHR ''C'') # c # t"]
  obtain r2 u2 where 2: "afterMarker (of_char CHR ''B'') r1 = Some r2" "r2 = u2 @ r @ (of_char CHR ''C'') # c # t"
    using 1(2) by auto
  from afterMarker_complete[OF s(3), of "(of_char CHR ''C'')" "u2 @ r" t]
  obtain r3 where 3: "afterMarker (of_char CHR ''C'') r2 = Some r3"
    using 2(2) by auto
  show "inlineOptions text" using 1(1) 2(1) 3 by (simp add: inlineOptions_def)
qed

text \<open>
  C8, as amended.  When the text has no answer-key marker and neither line-count rule
  fires, \<open>detectType\<close> returns MCQ exactly when the text holds the marker of A, later the
  marker of B and later the marker of C (a marker being the letter followed by one of
  \<open>. ) :\<close>), anything, line breaks included, in between; otherwise it returns UNKNOWN.
\<close>

theorem detectType_inline_fallback:
  assumes "\<not> test KEY_REGEX_EXTRACT text"
    and "\<not> (mcqCount text \<ge> 2 \<and> mcqCount text > tfCount text)"
    and "\<not> (tfCount text \<ge> 2 \<and> tfCount text > mcqCount text)"
  shows "detectType text =
     (if \<exists>p a q b r c t. text = p @ (of_char CHR ''A'') # a # q @ (of_char CHR ''B'') # b # r @ (of_char CHR ''C'') # c # t
            \<and> isSeparator a \<and> isSeparator b \<and> isSeparator c
      then MCQ else UNKNOWN)"
  using assms unfolding detectType_def inlineOptions_iff[symmetric] by auto

lemma markersOnThreeLines_lines:
  "splitOn 0x0A markersOnThreeLines = [(js ''1 A. x''), (js ''2 B. y''), (js ''3 C. z'')]"
  by (simp add: markersOnThreeLines_def)

lemma markersOnThreeLines_facts:
  "\<not> test KEY_REGEX_EXTRACT markersOnThreeLines"
  "mcqCount markersOnThreeLines = 0"
  "tfCount markersOnThreeLines = 0"
  "inlineOptions markersOnThreeLines"
  "\<not> specInlineRun markersOnThreeLines"
proof -
  show "\<not> test KEY_REGEX_EXTRACT markersOnThreeLines"
    by (simp add: markersOnThreeLines_def test_def keyAt_def)
  show "mcqCount markersOnThreeLines = 0"
    by (simp add: mcqCount_def markersOnThreeLines_lines trim_def isSpace_def mcqLine_def)
  show "tfCount markersOnThreeLines = 0"
    by (simp add: tfCount_def markersOnThreeLines_lines trim_def isSpace_def tfLine_def)
  show "inlineOptions markersOnThreeLines"
    by (simp add: inlineOptions_def markersOnThreeLines_def isSeparator_def)
  show "\<not> specInlineRun markersOnThreeLines"
    by (simp add: specInlineRun_def markersOnThreeLines_lines isSeparator_def)
qed

text \<open>
  C8 as stated fails: the text with the markers of A, B and C on three different lines,
  each after other characters, meets the hypotheses and is classified MCQ, although no
  line of it holds three markers.
\<close>

theorem detectType_inline_counterexample:
  "\<not> test KEY_REGEX_EXTRACT markersOnThreeLines
   \<and> \<not> (mcqCount markersOnThreeLines \<ge> 2 \<and> mcqCount markersOnThreeLines > tfCount markersOnThreeLines)
   \<and> \<not> (tfCount markersOnThreeLines \<ge> 2 \<and> tfCount markersOnThreeLines > mcqCount markersOnThreeLines)
   \<and> detectType markersOnThreeLines = MCQ
   \<and> \<not> specInlineRun markersOnThreeLines"
  using markersOnThreeLines_facts by (simp add: detectType_def)

text \<open>The amended statement at the text with all markers after the stem, on one line.\<close>

theorem detectType_inline_fallback_witness:
  "mcqCount markersOnOneLine = 0 \<and> tfCount markersOnOneLine = 0
   \<and> detectType markersOnOneLine = MCQ"
proof -
  have k: "\<not> test KEY_REGEX_EXTRACT markersOnOneLine"
    by (simp add: markersOnOneLine_def test_def keyAt_def)
  have m: "mcqCount markersOnOneLine = 0"
    by (simp add: mcqCount_def markersOnOneLine_def trim_def isSpace_def mcqLine_def)
  have t: "tfCount markersOnOneLine = 0"
    by (simp add: tfCount_def markersOnOneLine_def trim_def isSpace_def tfLine_def)
  have d: "markersOnOneLine
      = (js ''Tinh: '') @ (of_char CHR ''A'') # (of_char CHR ''.'') # (js '' 1  '') @ (of_char CHR ''B'') # (of_char CHR ''.'') # (js '' 2  '')
          @ (of_char CHR ''C'') # (of_char CHR ''.'') # (js '' 3  D. 4'')"
    by (simp add: markersOnOneLine_def)
  have s: "isSeparator (of_char CHR ''.'')" by (simp add: isSeparator_def)
  have e: "\<exists>p a q b r c t. markersOnOneLine
             = p @ (of_char CHR ''A'') # a # q @ (of_char CHR ''B'') # b # r @ (of_char CHR ''C'') # c # t
            \<and> isSeparator a \<and> isSeparator b \<and> isSeparator c"
    using d s by blast
  have "detectType markersOnOneLine = MCQ"
    using detectType_inline_fallback[of markersOnOneLine] k m t e by simp
  then show ?thesis using m t by simp
qed

section \<open>The answer resolver\<close>

text \<open>
  A node that passes the test of the option pattern has a match, so the scan of the MCQ
  branch stops at the first underlined option node with that node's letter; the
  positional letter is never used.
\<close>

lemma find_first:
  "\<forall>x \<in> set xs. \<not> P x \<Longrightarrow> P y \<Longrightarrow> find P (xs @ y # ys) = Some y"
  by (induction xs) simp_all

lemma mcqAnswerLoop_find:
  "mcqAnswerLoop nodes i ans =
     (case find (\<lambda>n. test OPTION_PREFIX_REGEX (textContent n) \<and> hasUnderline n) nodes of
        None \<Rightarrow> ans
      | Some n \<Rightarrow>
          (case OPTION_PREFIX_REGEX (textContent n) of
             Some (s1, letter, s3, sep, rest) \<Rightarrow> [toUpperChar letter] | None \<Rightarrow> ans))"
proof (induction nodes arbitrary: i ans)
  case Nil
  then show ?case by simp
next
  case (Cons n nodes)
  show ?case
  proof (cases "test OPTION_PREFIX_REGEX (textContent n) \<and> hasUnderline n")
    case True
    then obtain m where "OPTION_PREFIX_REGEX (textContent n) = Some m"
      by (auto simp: test_def)
    then show ?thesis using True by (cases m) simp
  next
    case False
    then show ?thesis using Cons.IH by auto
  qed
qed

text \<open>
  When \<open>node\<close> is the first node in document order whose text matches the option
  pattern, with letter \<open>letter\<close>, and that carries the underline marker, the resolver
  returns the uppercase of \<open>letter\<close>; when there is no such node it returns the empty
  string.
\<close>

lemma mcqAnswer_first_underlined:
  assumes "nodes = before @ node # after"
    and "OPTION_PREFIX_REGEX (textContent node) = Some (s1, letter, s3, sep, rest)"
    and "hasUnderline node"
    and "\<forall>m \<in> set before. \<not> (test OPTION_PREFIX_REGEX (textContent m) \<and> hasUnderline m)"
  shows "getAnswerFromNodes nodes MCQ originalText = [toUpperChar letter]"
proof -
  have "find (\<lambda>n. test OPTION_PREFIX_REGEX (textContent n) \<and> hasUnderline n) nodes = Some node"
    using assms by (simp add: find_first test_def)
  then show ?thesis using assms(2) by (simp add: getAnswerFromNodes_def mcqAnswerLoop_find)
qed

lemma mcqAnswer_none_underlined:
  assumes "\<forall>m \<in> set nodes. \<not> (test OPTION_PREFIX_REGEX (textContent m) \<and> hasUnderline m)"
  shows "getAnswerFromNodes nodes MCQ originalText = []"
proof -
  have "find (\<lambda>n. test OPTION_PREFIX_REGEX (textContent n) \<and> hasUnderline n) nodes = None"
    using assms by (simp add: find_None_iff)
  then show ?thesis by (simp add: getAnswerFromNodes_def mcqAnswerLoop_find)
qed

lemma textContent_par_run [simp]: "textContent (par [run u s]) = s"
  by (simp add: par_def run_def)

lemma hasUnderline_plain [simp]: "\<not> hasUnderline (par [run False s])"
  by (simp add: par_def run_def hasUnderline_def getElementsByTagName_def runUnderlined_def)

text \<open>
  C1.  The scenario of the specification (stem, A, B, underlined C, D) resolves to C.  The
  second half of the claim fails: in the question whose second option is the underlined
  letter \<open>B\<close> alone, that paragraph is an option node of the shuffle and carries the
  underline, no letter followed by a separator can be parsed from it, and the resolver
  returns the empty string instead of the positional letter \<open>B\<close>.  The branch that
  assigns the positional letter runs only when a text that passed the test of the option
  pattern has no match of that pattern, which never happens.
\<close>

theorem getAnswerFromNodes_no_positional_fallback:
  "getAnswerFromNodes scenarioNodes MCQ scenarioStem = (js ''C'')
   \<and> map isOptionNode letterOnlyQuestion = [False, True, True, True]
   \<and> map hasUnderline letterOnlyQuestion = [False, False, True, False]
   \<and> labelsABCD ! 1 = (js ''B'')
   \<and> getAnswerFromNodes letterOnlyQuestion MCQ scenarioStem = []"
  by code_simp

section \<open>Applying a fix\<close>




section \<open>Reading the document\<close>

lemma sublist_msgNoDocument: "sublist (js ''word/document.xml'') msgNoDocument"
  unfolding sublist_def msgNoDocument_def
  by (intro exI[of _ "(js ''Kh'') @ [0xF4] @ (js ''ng t'') @ [0xEC] @ (js ''m th'') @ [0x1EA5] @ (js ''y '')"]
        exI[of _ "(js ''. File docx kh'') @ [0xF4] @ (js ''ng h'') @ [0x1EE3] @ (js ''p l'') @ [0x1EC7] @ (js ''.'')"])
     simp

lemma sublist_msgNoBody: "sublist (js ''w:body'') msgNoBody"
  unfolding sublist_def msgNoBody_def
  by (intro exI[of _ "(js ''C'') @ [0x1EA5] @ (js ''u tr'') @ [0xFA] @ (js ''c file l'') @ [0x1ED7] @ (js ''i (thi'') @ [0x1EBF] @ (js ''u '')"]
        exI[of _ "(js '').'')"])
     simp

text \<open>
  C9.  \<open>processDocxFile\<close> fails, returning no processed document, when the package has
  no part \<open>word/document.xml\<close> and when that part has no \<open>w:body\<close> element; the message
  of the error names the missing part.  In every other case it returns a document.
\<close>

theorem processDocxFile_missing_part:
  "(package ''word/document.xml'' = None \<longrightarrow>
      processDocxFile uuid package = Inl (Error msgNoDocument))
   \<and> (package ''word/document.xml'' = Some xmlDoc
        \<and> filter (\<lambda>d. isElement d \<and> nodeName d = ''w:body'') (xmlDoc # descendants xmlDoc) = []
        \<longrightarrow> processDocxFile uuid package = Inl (Error msgNoBody))
   \<and> (package ''word/document.xml'' = Some xmlDoc
        \<and> filter (\<lambda>d. isElement d \<and> nodeName d = ''w:body'') (xmlDoc # descendants xmlDoc) \<noteq> []
        \<longrightarrow> (\<exists>doc. processDocxFile uuid package = Inr doc))
   \<and> sublist (js ''word/document.xml'') msgNoDocument
   \<and> sublist (js ''w:body'') msgNoBody"
proof (intro conjI impI)
  assume "package ''word/document.xml'' = None"
  then show "processDocxFile uuid package = Inl (Error msgNoDocument)"
    by (simp add: processDocxFile_def)
next
  assume "package ''word/document.xml'' = Some xmlDoc
        \<and> filter (\<lambda>d. isElement d \<and> nodeName d = ''w:body'') (xmlDoc # descendants xmlDoc) = []"
  then show "processDocxFile uuid package = Inl (Error msgNoBody)"
    by (simp add: processDocxFile_def)
next
  assume a: "package ''word/document.xml'' = Some xmlDoc
        \<and> filter (\<lambda>d. isElement d \<and> nodeName d = ''w:body'') (xmlDoc # descendants xmlDoc) \<noteq> []"
  then obtain body rest where
    "filter (\<lambda>d. isElement d \<and> nodeName d = ''w:body'') (xmlDoc # descendants xmlDoc) = body # rest"
    by (cases "filter (\<lambda>d. isElement d \<and> nodeName d = ''w:body'') (xmlDoc # descendants xmlDoc)") auto
  then show "\<exists>doc. processDocxFile uuid package = Inr doc"
    using a by (simp add: processDocxFile_def Let_def split: prod.splits)
qed (rule sublist_msgNoDocument sublist_msgNoBody)+

text \<open>The empty package and the package whose main part has no body.\<close>

theorem processDocxFile_missing_part_witness:
  "processDocxFile (\<lambda>k. (js ''id'')) Map.empty = Inl (Error msgNoDocument)
   \<and> processDocxFile (\<lambda>k. (js ''id'')) packageWithoutBody = Inl (Error msgNoBody)
   \<and> (\<exists>doc. processDocxFile (\<lambda>k. (js ''id'')) inlinePackage = Inr doc)"
proof -
  have a: "Map.empty ''word/document.xml'' = (None :: xml option)" by simp
  have b: "packageWithoutBody ''word/document.xml'' = Some (Elem ''w:document'' [] [])
        \<and> filter (\<lambda>d. isElement d \<and> nodeName d = ''w:body'')
             (Elem ''w:document'' [] [] # descendants (Elem ''w:document'' [] [])) = []"
    by (simp add: packageWithoutBody_def)
  let ?doc = "Elem ''w:document'' []
          [Elem ''w:body'' []
             [par [run False inlineStem, run True (js ''B. 2''), run False (js ''  C. 3'')]]]"
  have c: "inlinePackage ''word/document.xml'' = Some ?doc
        \<and> filter (\<lambda>d. isElement d \<and> nodeName d = ''w:body'') (?doc # descendants ?doc) \<noteq> []"
    by (simp add: inlinePackage_def)
  show ?thesis
    using processDocxFile_missing_part[where package = Map.empty and uuid = "\<lambda>k. (js ''id'')"] a
      processDocxFile_missing_part[where package = packageWithoutBody
        and xmlDoc = "Elem ''w:document'' [] []" and uuid = "\<lambda>k. (js ''id'')"] b
      processDocxFile_missing_part[where package = inlinePackage and xmlDoc = ?doc
        and uuid = "\<lambda>k. (js ''id'')"] c
    by blast
qed

section \<open>Validity of a question\<close>

text \<open>
  For a question classified MCQ the validity flag is the underline flag: the number of
  option nodes does not enter it, and the underline may sit on any paragraph.
\<close>

lemma buildQuestion_MCQ_valid:
  "qtype (buildQuestion u k text nodes sec) = MCQ \<Longrightarrow>
     isValid (buildQuestion u k text nodes sec) = hasUnderlineQ (buildQuestion u k text nodes sec)"
  by (auto simp: buildQuestion_def Let_def)

text \<open>
  C6 fails on the code.  The document whose only question has its three options typed
  inside the paragraph of the stem, one of them underlined, is read as one MCQ question
  with no option node; \<open>processDocxFile\<close> marks it valid, while
  \<open>getValidationIssues\<close> reports for it the error that the options are not on lines of
  their own.
\<close>

theorem isValid_ignores_option_count:
  "(case processDocxFile (\<lambda>k. (js ''id'')) inlinePackage of
      Inl e \<Rightarrow> []
    | Inr doc \<Rightarrow>
        map (\<lambda>q. (qtype q, detectedOptionNodes q, hasUnderlineQ q, isValid q)) (questions doc))
     = [(MCQ, Some 0, True, True)]
   \<and> (case processDocxFile (\<lambda>k. (js ''id'')) inlinePackage of
        Inl e \<Rightarrow> []
      | Inr doc \<Rightarrow>
          map (\<lambda>i. (questionIndex i, issue i, severity i)) (getValidationIssues (questions doc)))
     = [(0, msgOptionsNotSplit, SevError)]"
  by code_simp

section \<open>Variant codes and the answer table\<close>








text \<open>The loop when iteration \<open>m\<close> is the first to throw.\<close>

lemma variantLoop_throws:
  assumes "\<And>i. a \<le> i \<Longrightarrow> i < m \<Longrightarrow>
     assemble (variantCodeOf startCode i) (st i) = Inr (ans i, st (Suc i))"
    and "assemble (variantCodeOf startCode m) (st m) = Inl e"
    and "a \<le> m" "m < b"
  shows "variantLoop assemble startCode [a ..< b] acc (st a) = Inl e"
  using assms
proof (induction "m - a" arbitrary: a acc)
  case 0
  then have "a = m" by simp
  moreover have "[m ..< b] = m # [Suc m ..< b]" using 0 by (simp add: upt_conv_Cons)
  ultimately show ?case using 0 by (simp add: Let_def)
next
  case (Suc k)
  then have lt: "a < m" by simp
  have u: "[a ..< b] = a # [Suc a ..< b]" using lt Suc.prems by (simp add: upt_conv_Cons)
  have step: "assemble (variantCodeOf startCode a) (st a) = Inr (ans a, st (Suc a))"
    using Suc.prems(1)[of a] lt by simp
  have "variantLoop assemble startCode [Suc a ..< b]
          (acc @ [\<lparr> code = variantCodeOf startCode a, answers = ans a \<rparr>]) (st (Suc a)) = Inl e"
  proof (rule Suc.hyps(1))
    show "k = m - Suc a" using Suc.hyps(2) by simp
    show "assemble (variantCodeOf startCode m) (st m) = Inl e" by (rule Suc.prems(2))
    show "Suc a \<le> m" using lt by simp
    show "m < b" by (rule Suc.prems(4))
    fix i assume "Suc a \<le> i" "i < m"
    then show "assemble (variantCodeOf startCode i) (st i) = Inr (ans i, st (Suc i))"
      using Suc.prems(1)[of i] by simp
  qed
  then show ?case unfolding u using step by (simp add: Let_def)
qed

lemma generateVariants_throws:
  assumes "\<And>i. 1 \<le> i \<Longrightarrow> i < m \<Longrightarrow>
     assemble (variantCodeOf startCode i) (st i) = Inr (ans i, st (Suc i))"
    and "assemble (variantCodeOf startCode m) (st m) = Inl e"
    and "1 \<le> m" "m \<le> n"
  shows "generateVariants assemble docData n startCode (st 1) = Inl e"
proof -
  have "variantLoop assemble startCode [1 ..< n + 1] [] (st 1) = Inl e"
    by (rule variantLoop_throws[where m = m and ans = ans]) (use assms in auto)
  then show ?thesis by (simp add: generateVariants_def del: upt_Suc)
qed








section \<open>The option shuffle and a label outside the text runs\<close>

text \<open>
  C2.  The question has a stem and two options.  The first option has its label and
  formula typed in the equation editor (\<open>A. x = \<close> in an \<open>m:t\<close>), followed by the
  plain text \<open>b\<close>; the second is the plain text \<open>B. x = 2\<close>.  Both are option nodes.
  The relabelling does not visit an \<open>m:t\<close>: in the first option it takes the letter
  \<open>b\<close> of the plain text for the label and overwrites it.  After the shuffle both
  options are labelled \<open>A.\<close>, and the content \<open>x = b\<close> has become \<open>x = B\<close>: the
  multiset of the option contents ignoring the label prefix has changed.
\<close>

theorem shuffleQuestionOptions_overwrites_content:
  "optionPositions mathQuestion = [1, 2]
   \<and> map textContent mathQuestion = [scenarioStem, (js ''A. x = b''), (js ''B. x = 2'')]
   \<and> map_sum id (map textContent \<circ> fst) (shuffleQuestionOptions mathQuestion MCQ None zeroRng)
       = Inr [scenarioStem, (js ''A. x = 2''), (js ''A. x = B'')]
   \<and> map optionContent (map ((!) mathQuestion) (optionPositions mathQuestion))
       = [(js '' x = b''), (js '' x = 2'')]
   \<and> map optionContent
         (map ((!) (fst (projr (shuffleQuestionOptions mathQuestion MCQ None zeroRng))))
            (optionPositions mathQuestion))
       = [(js '' x = 2''), (js '' x = B'')]
   \<and> mset (map optionContent
         (map ((!) (fst (projr (shuffleQuestionOptions mathQuestion MCQ None zeroRng))))
            (optionPositions mathQuestion)))
       \<noteq> mset (map optionContent (map ((!) mathQuestion) (optionPositions mathQuestion)))"
proof -
  have p: "optionPositions mathQuestion = [1, 2]" by code_simp
  have t: "map textContent mathQuestion = [scenarioStem, (js ''A. x = b''), (js ''B. x = 2'')]"
    by code_simp
  have a: "map_sum id (map textContent \<circ> fst) (shuffleQuestionOptions mathQuestion MCQ None zeroRng)
     = Inr [scenarioStem, (js ''A. x = 2''), (js ''A. x = B'')]"
    by code_simp
  have b: "map optionContent (map ((!) mathQuestion) (optionPositions mathQuestion))
       = [(js '' x = b''), (js '' x = 2'')]"
    by code_simp
  have c: "map optionContent
         (map ((!) (fst (projr (shuffleQuestionOptions mathQuestion MCQ None zeroRng))))
            (optionPositions mathQuestion))
       = [(js '' x = 2''), (js '' x = B'')]"
    by code_simp
  have d: "mset [(js '' x = 2''), (js '' x = B'')] \<noteq> mset [(js '' x = b''), (js '' x = 2'')]"
    by simp
  show ?thesis using p t a d unfolding b c by simp
qed

end
